theory Spec2Isabelle
  imports Complex_Main "HOL-Library.Sublist"
begin

section \<open>Strings\<close>

text \<open>
  JavaScript strings are modelled as \<^typ>\<open>string\<close>: a character of the model is a code unit
  below 256, the Latin-1 range of JavaScript's UTF-16 strings. On these code units
  \<open>toLowerCase\<close> maps the letters \<open>A\<close> to \<open>Z\<close> (65 to 90) and the capital letters U+00C0 to
  U+00DE (192 to 222) except the multiplication sign U+00D7 (215) to the letter 32 places
  on, and leaves every other one as it is. Strings with code units beyond 255 are outside
  the model.
\<close>

definition lower_char :: "char \<Rightarrow> char" where
  "lower_char c =
     (let n = (of_char c :: nat)
      in if (65 \<le> n \<and> n \<le> 90) \<or> (192 \<le> n \<and> n \<le> 222 \<and> n \<noteq> 215)
         then char_of (n + 32) else c)"

definition toLowerCase :: "string \<Rightarrow> string" where
  "toLowerCase s = map lower_char s"

text \<open>\<open>s.startsWith(p)\<close>: \<open>p\<close> is read off the front of \<open>s\<close>.\<close>

fun startsWith :: "string \<Rightarrow> string \<Rightarrow> bool" where
  "startsWith s [] = True"
| "startsWith [] (p # ps) = False"
| "startsWith (c # cs) (p # ps) = (c = p \<and> startsWith cs ps)"

text \<open>\<open>s.includes(p)\<close>: \<open>p\<close> occurs at some position of \<open>s\<close>.\<close>

fun str_includes :: "string \<Rightarrow> string \<Rightarrow> bool" where
  "str_includes [] p = (p = [])"
| "str_includes (c # cs) p = (startsWith (c # cs) p \<or> str_includes cs p)"

text \<open>\<open>parts.join(sep)\<close>\<close>

fun join :: "string \<Rightarrow> string list \<Rightarrow> string" where
  "join sep [] = []"
| "join sep [x] = x"
| "join sep (x # y # ys) = x @ sep @ join sep (y # ys)"

text \<open>Decimal rendering of a non-negative integer, as a template literal does.\<close>

fun digits :: "nat \<Rightarrow> string" where
  "digits n =
     (if n < 10 then [char_of (48 + n)] else digits (n div 10) @ [char_of (48 + n mod 10)])"

declare digits.simps [simp del]

section \<open>Rotation over categories and cities (scheduled function)\<close>

definition CATEGORIES :: "string list" where
  "CATEGORIES = [
    ''dentist'', ''lawyer'', ''doctor'', ''accountant'', ''therapist'',
    ''chiropractor'', ''insurance'', ''real_estate'', ''financial'',
    ''clinic'', ''pharmacy'', ''veterinary'', ''optometrist'', ''psychologist'']"

record city =
  city_name :: string
  city_lat :: real
  city_lon :: real

definition CITIES :: "city list" where
  "CITIES = [
    \<lparr>city_name = ''Los Angeles'', city_lat = 34.0522, city_lon = -118.2437\<rparr>,
    \<lparr>city_name = ''New York'', city_lat = 40.7128, city_lon = -74.0060\<rparr>,
    \<lparr>city_name = ''Chicago'', city_lat = 41.8781, city_lon = -87.6298\<rparr>,
    \<lparr>city_name = ''Houston'', city_lat = 29.7604, city_lon = -95.3698\<rparr>,
    \<lparr>city_name = ''Phoenix'', city_lat = 33.4484, city_lon = -112.0740\<rparr>,
    \<lparr>city_name = ''Philadelphia'', city_lat = 39.9526, city_lon = -75.1652\<rparr>,
    \<lparr>city_name = ''San Antonio'', city_lat = 29.4241, city_lon = -98.4936\<rparr>,
    \<lparr>city_name = ''San Diego'', city_lat = 32.7157, city_lon = -117.1611\<rparr>,
    \<lparr>city_name = ''Dallas'', city_lat = 32.7767, city_lon = -96.7970\<rparr>,
    \<lparr>city_name = ''San Jose'', city_lat = 37.3382, city_lon = -121.8863\<rparr>,
    \<lparr>city_name = ''Austin'', city_lat = 30.2672, city_lon = -97.7431\<rparr>,
    \<lparr>city_name = ''Jacksonville'', city_lat = 30.3322, city_lon = -81.6557\<rparr>,
    \<lparr>city_name = ''San Francisco'', city_lat = 37.7749, city_lon = -122.4194\<rparr>,
    \<lparr>city_name = ''Columbus'', city_lat = 39.9612, city_lon = -82.9988\<rparr>,
    \<lparr>city_name = ''Fort Worth'', city_lat = 32.7555, city_lon = -97.3308\<rparr>,
    \<lparr>city_name = ''Indianapolis'', city_lat = 39.7684, city_lon = -86.1581\<rparr>,
    \<lparr>city_name = ''Charlotte'', city_lat = 35.2271, city_lon = -80.8431\<rparr>,
    \<lparr>city_name = ''Seattle'', city_lat = 47.6062, city_lon = -122.3321\<rparr>,
    \<lparr>city_name = ''Denver'', city_lat = 39.7392, city_lon = -104.9903\<rparr>,
    \<lparr>city_name = ''Washington DC'', city_lat = 38.9072, city_lon = -77.0369\<rparr>,
    \<lparr>city_name = ''Boston'', city_lat = 42.3601, city_lon = -71.0589\<rparr>,
    \<lparr>city_name = ''Nashville'', city_lat = 36.1627, city_lon = -86.7816\<rparr>,
    \<lparr>city_name = ''Detroit'', city_lat = 42.3314, city_lon = -83.0458\<rparr>,
    \<lparr>city_name = ''Portland'', city_lat = 45.5152, city_lon = -122.6784\<rparr>,
    \<lparr>city_name = ''Las Vegas'', city_lat = 36.1699, city_lon = -115.1398\<rparr>,
    \<lparr>city_name = ''Memphis'', city_lat = 35.1495, city_lon = -90.0490\<rparr>,
    \<lparr>city_name = ''Louisville'', city_lat = 38.2527, city_lon = -85.7585\<rparr>,
    \<lparr>city_name = ''Baltimore'', city_lat = 39.2904, city_lon = -76.6122\<rparr>,
    \<lparr>city_name = ''Milwaukee'', city_lat = 43.0389, city_lon = -87.9065\<rparr>,
    \<lparr>city_name = ''Albuquerque'', city_lat = 35.0844, city_lon = -106.6504\<rparr>,
    \<lparr>city_name = ''Tucson'', city_lat = 32.2226, city_lon = -110.9747\<rparr>,
    \<lparr>city_name = ''Fresno'', city_lat = 36.7378, city_lon = -119.7871\<rparr>,
    \<lparr>city_name = ''Sacramento'', city_lat = 38.5816, city_lon = -121.4944\<rparr>,
    \<lparr>city_name = ''Atlanta'', city_lat = 33.7490, city_lon = -84.3880\<rparr>,
    \<lparr>city_name = ''Miami'', city_lat = 25.7617, city_lon = -80.1918\<rparr>,
    \<lparr>city_name = ''Oakland'', city_lat = 37.8044, city_lon = -122.2712\<rparr>,
    \<lparr>city_name = ''Minneapolis'', city_lat = 44.9778, city_lon = -93.2650\<rparr>,
    \<lparr>city_name = ''Cleveland'', city_lat = 41.4993, city_lon = -81.6944\<rparr>,
    \<lparr>city_name = ''Raleigh'', city_lat = 35.7796, city_lon = -78.6382\<rparr>,
    \<lparr>city_name = ''Tampa'', city_lat = 27.9506, city_lon = -82.4572\<rparr>,
    \<lparr>city_name = ''Orlando'', city_lat = 28.5383, city_lon = -81.3792\<rparr>,
    \<lparr>city_name = ''Pittsburgh'', city_lat = 40.4406, city_lon = -79.9959\<rparr>,
    \<lparr>city_name = ''Cincinnati'', city_lat = 39.1031, city_lon = -84.5120\<rparr>,
    \<lparr>city_name = ''St Louis'', city_lat = 38.6270, city_lon = -90.1994\<rparr>,
    \<lparr>city_name = ''Salt Lake City'', city_lat = 40.7608, city_lon = -111.8910\<rparr>,
    \<lparr>city_name = ''Roseville'', city_lat = 38.7521, city_lon = -121.2880\<rparr>,
    \<lparr>city_name = ''Irvine'', city_lat = 33.6846, city_lon = -117.8265\<rparr>,
    \<lparr>city_name = ''Santa Barbara'', city_lat = 34.4208, city_lon = -119.6982\<rparr>,
    \<lparr>city_name = ''Pasadena'', city_lat = 34.1478, city_lon = -118.1445\<rparr>,
    \<lparr>city_name = ''Bakersfield'', city_lat = 35.3733, city_lon = -119.0187\<rparr>]"

text \<open>
  The persisted rotation cursor \<open>{ cityIndex, categoryIndex, totalRuns }\<close>. The indices are
  JavaScript numbers; they are counted here as natural numbers (the 53-bit precision limit is
  out of reach of an hourly counter).
\<close>

record rotation_state =
  cityIndex :: nat
  categoryIndex :: nat
  totalRuns :: nat

definition default_state :: rotation_state where
  "default_state = \<lparr>cityIndex = 0, categoryIndex = 0, totalRuns = 0\<rparr>"

text \<open>
  The advance step, written twice in the handler (at the end of the \<open>try\<close> block and in the
  \<open>catch\<close> block) with the same text:
  \<^verbatim>\<open>
    state.categoryIndex++;
    if (state.categoryIndex >= CATEGORIES.length) {
      state.categoryIndex = 0;
      state.cityIndex++;
    }
    state.totalRuns++;
  \<close>
  The number of categories is a parameter \<open>C\<close>; the handler uses \<open>length CATEGORIES\<close>.
\<close>

definition advance_rotation :: "nat \<Rightarrow> rotation_state \<Rightarrow> rotation_state" where
  "advance_rotation C s =
     (let s1 = s\<lparr>categoryIndex := categoryIndex s + 1\<rparr>;
          s2 = (if categoryIndex s1 \<ge> C
                then s1\<lparr>categoryIndex := 0, cityIndex := cityIndex s1 + 1\<rparr>
                else s1)
      in s2\<lparr>totalRuns := totalRuns s2 + 1\<rparr>)"

definition advance :: "rotation_state \<Rightarrow> rotation_state" where
  "advance = advance_rotation (length CATEGORIES)"

text \<open>
  The projection to the current pair reduces the stored indices modulo the table lengths:
  \<open>CITIES[state.cityIndex % CITIES.length]\<close>, \<open>CATEGORIES[state.categoryIndex % CATEGORIES.length]\<close>.
\<close>

definition current_of :: "'c list \<Rightarrow> 'l list \<Rightarrow> rotation_state \<Rightarrow> 'l \<times> 'c" where
  "current_of cats locs s =
     (locs ! (cityIndex s mod length locs), cats ! (categoryIndex s mod length cats))"

definition current :: "rotation_state \<Rightarrow> city \<times> string" where
  "current = current_of CATEGORIES CITIES"

section \<open>Business records\<close>

text \<open>
  The object built for each OpenStreetMap element. The coordinates and the element id
  (\<open>lat\<close>, \<open>lon\<close>, \<open>osmId\<close>) are copied from the element and read by no function
  below; they are left out. The command-line script builds the same object without
  \<open>scrapedAt\<close> and \<open>scrapedCity\<close> and with \<open>city\<close> defaulting to the empty string.
\<close>

record business =
  name :: string
  category :: string
  website :: string
  phone :: string
  email :: string
  address :: string
  city :: string
  state :: string
  source :: string
  scrapedAt :: string
  scrapedCity :: string

text \<open>A qualified lead is \<open>{ ...biz, hasGA, hasFB }\<close>.\<close>

record lead = business +
  hasGA :: bool
  hasFB :: bool

definition with_tracking :: "business \<Rightarrow> bool \<Rightarrow> bool \<Rightarrow> lead" where
  "with_tracking biz ga fb = business.extend biz (lead.fields ga fb)"

text \<open>
  An element of the Overpass response is represented by its \<open>tags\<close> object, a finite map
  from tag names to strings (\<open>el.tags || {}\<close>: a missing object is the empty map).
  \<open>a || b\<close> on tag values takes \<open>a\<close> unless it is undefined or the empty string.
\<close>

type_synonym element = "string \<rightharpoonup> string"

definition tag_or :: "string option \<Rightarrow> string \<Rightarrow> string" where
  "tag_or a b = (case a of None \<Rightarrow> b | Some v \<Rightarrow> if v = [] then b else v)"

definition truthy :: "string option \<Rightarrow> string list" where
  "truthy a = (case a of None \<Rightarrow> [] | Some v \<Rightarrow> if v = [] then [] else [v])"

definition addressParts :: "element \<Rightarrow> string list" where
  "addressParts tags =
     truthy (tags ''addr:housenumber'') @ truthy (tags ''addr:street'') @
     truthy (tags ''addr:city'') @ truthy (tags ''addr:state'') @
     truthy (tags ''addr:postcode'')"

text \<open>The scheduled function's conversion; \<open>now\<close> is \<open>new Date().toISOString()\<close>.\<close>

definition to_business :: "string \<Rightarrow> string \<Rightarrow> city \<Rightarrow> element \<Rightarrow> business" where
  "to_business now cat c tags =
     \<lparr>name = tag_or (tags ''name'') (tag_or (tags ''name:en'') ''Unknown Business''),
      category = cat,
      website = tag_or (tags ''website'') (tag_or (tags ''contact:website'') (tag_or (tags ''url'') [])),
      phone = tag_or (tags ''phone'') (tag_or (tags ''contact:phone'') []),
      email = tag_or (tags ''email'') (tag_or (tags ''contact:email'') []),
      address = join '', '' (addressParts tags),
      city = tag_or (tags ''addr:city'') (city_name c),
      state = tag_or (tags ''addr:state'') [],
      source = ''OpenStreetMap'',
      scrapedAt = now,
      scrapedCity = city_name c\<rparr>"

text \<open>The command-line script's conversion.\<close>

definition to_business_cli :: "string \<Rightarrow> element \<Rightarrow> business" where
  "to_business_cli cat tags =
     \<lparr>name = tag_or (tags ''name'') (tag_or (tags ''name:en'') ''Unknown Business''),
      category = cat,
      website = tag_or (tags ''website'') (tag_or (tags ''contact:website'') (tag_or (tags ''url'') [])),
      phone = tag_or (tags ''phone'') (tag_or (tags ''contact:phone'') []),
      email = tag_or (tags ''email'') (tag_or (tags ''contact:email'') []),
      address = join '', '' (addressParts tags),
      city = tag_or (tags ''addr:city'') [],
      state = tag_or (tags ''addr:state'') [],
      source = ''OpenStreetMap'',
      scrapedAt = [],
      scrapedCity = []\<rparr>"

section \<open>Business search: filtering and deduplication\<close>

text \<open>
  The scheduled function (\<open>searchOpenStreetMap\<close> in \<open>scrape-leads.mjs\<close>):
  \<^verbatim>\<open>
    const seen = new Set();
    return businesses.filter(b => {
      if (b.name === 'Unknown Business') return false;
      if (!b.website) return false; // Only keep businesses with websites
      const key = b.name.toLowerCase();
      if (seen.has(key)) return false;
      seen.add(key);
      return true;
    }).slice(0, limit);
  \<close>
  The mutable set \<open>seen\<close> is threaded through the recursion.
\<close>

fun filter_seen :: "string set \<Rightarrow> business list \<Rightarrow> business list" where
  "filter_seen seen [] = []"
| "filter_seen seen (b # bs) =
     (if name b = ''Unknown Business'' then filter_seen seen bs
      else if website b = [] then filter_seen seen bs
      else let key = toLowerCase (name b)
           in if key \<in> seen then filter_seen seen bs
              else b # filter_seen (insert key seen) bs)"

definition filter_and_deduplicate :: "nat \<Rightarrow> business list \<Rightarrow> business list" where
  "filter_and_deduplicate limit businesses = take limit (filter_seen {} businesses)"

text \<open>
  The command-line script (\<open>searchOpenStreetMap\<close> of the script): the same filter without the
  website test and without \<open>slice\<close>.
\<close>

fun filter_seen_cli :: "string set \<Rightarrow> business list \<Rightarrow> business list" where
  "filter_seen_cli seen [] = []"
| "filter_seen_cli seen (b # bs) =
     (if name b = ''Unknown Business'' then filter_seen_cli seen bs
      else let key = toLowerCase (name b)
           in if key \<in> seen then filter_seen_cli seen bs
              else b # filter_seen_cli (insert key seen) bs)"

definition filter_and_deduplicate_cli :: "business list \<Rightarrow> business list" where
  "filter_and_deduplicate_cli businesses = filter_seen_cli {} businesses"

text \<open>
  The script's \<open>main\<close> chooses what goes on (\<open>businessesToCheck\<close>) from the flags
  \<open>checkTracking\<close> and \<open>filterTracking\<close> and the limit.
\<close>

definition businessesToCheck :: "bool \<Rightarrow> bool \<Rightarrow> nat \<Rightarrow> business list \<Rightarrow> business list" where
  "businessesToCheck checkTracking filterTracking limit businesses =
     (if checkTracking then
        (let withWebsites = filter (\<lambda>b. website b \<noteq> []) businesses
         in if filterTracking then take limit withWebsites else take limit businesses)
      else take limit businesses)"

text \<open>
  The post-processing as the specification words it: drop the records with no name, keep the
  first record of every lower-cased name, truncate to the limit.
\<close>

function dedup_first :: "business list \<Rightarrow> business list" where
  "dedup_first [] = []"
| "dedup_first (b # bs) =
     b # dedup_first (filter (\<lambda>b'. toLowerCase (name b') \<noteq> toLowerCase (name b)) bs)"
  by pat_completeness auto
termination
  by (relation "measure length") (auto simp: less_Suc_eq_le)

definition spec_postprocess :: "nat \<Rightarrow> business list \<Rightarrow> business list" where
  "spec_postprocess limit businesses =
     take limit (dedup_first (filter (\<lambda>b. name b \<noteq> ''Unknown Business'') businesses))"

section \<open>Tracking detection\<close>

text \<open>
  The outcome of one HTTP request made with the \<open>fetch\<close> helper: the promise is rejected
  with an error (network error, timeout, malformed URL; the error's message is kept) or
  resolved with a status code and a body.
\<close>

datatype 'b http = Rejected string | Response nat 'b

record tracking =
  trk_hasGA :: bool
  trk_hasFB :: bool
  trk_error :: "string option"

definition gaPatterns :: "string list" where
  "gaPatterns = [
    ''google-analytics.com'', ''googletagmanager.com'', ''gtag('',
    ''ga('', ''_ga'', ''analytics.js'', ''gtm.js'', ''ua-'', ''g-'']"

definition fbPatterns :: "string list" where
  "fbPatterns = [
    ''connect.facebook.net'', ''fbq('', ''facebook pixel'',
    ''fb-pixel'', ''fbevents.js'', ''pixel/event'']"

text \<open>\<open>patterns.some(p => html.includes(p))\<close>\<close>

definition some_included :: "string list \<Rightarrow> string \<Rightarrow> bool" where
  "some_included patterns html = list_ex (\<lambda>p. str_includes html p) patterns"

definition normalize_url :: "string \<Rightarrow> string" where
  "normalize_url url = (if \<not> startsWith url ''http'' then ''https://'' @ url else url)"

text \<open>
  \<open>checkWebsiteForTracking\<close> of the command-line script. \<open>fetch\<close> gives the outcome of the
  request for each URL; a rejection is what the \<open>catch\<close> clause receives. The field
  \<open>trk_error\<close> is \<open>None\<close> for \<open>error: null\<close>.
\<close>

definition checkWebsiteForTracking_cli :: "(string \<Rightarrow> string http) \<Rightarrow> string \<Rightarrow> tracking" where
  "checkWebsiteForTracking_cli fetch url =
     (if url = [] then \<lparr>trk_hasGA = False, trk_hasFB = False, trk_error = Some ''No URL''\<rparr>
      else case fetch (normalize_url url) of
             Rejected msg \<Rightarrow> \<lparr>trk_hasGA = False, trk_hasFB = False, trk_error = Some msg\<rparr>
           | Response status body \<Rightarrow>
               if status \<noteq> 200
               then \<lparr>trk_hasGA = False, trk_hasFB = False,
                     trk_error = Some (''HTTP '' @ digits status)\<rparr>
               else let html = toLowerCase body
                    in \<lparr>trk_hasGA = some_included gaPatterns html,
                        trk_hasFB = some_included fbPatterns html,
                        trk_error = None\<rparr>)"

text \<open>
  \<open>checkWebsiteForTracking\<close> of the scheduled function: every return is
  \<open>{ hasGA, hasFB }\<close>, with no \<open>error\<close> property (\<open>trk_error = None\<close>).
\<close>

definition checkWebsiteForTracking :: "(string \<Rightarrow> string http) \<Rightarrow> string \<Rightarrow> tracking" where
  "checkWebsiteForTracking fetch url =
     (if url = [] then \<lparr>trk_hasGA = False, trk_hasFB = False, trk_error = None\<rparr>
      else case fetch (normalize_url url) of
             Rejected msg \<Rightarrow> \<lparr>trk_hasGA = False, trk_hasFB = False, trk_error = None\<rparr>
           | Response status body \<Rightarrow>
               if status \<noteq> 200
               then \<lparr>trk_hasGA = False, trk_hasFB = False, trk_error = None\<rparr>
               else let html = toLowerCase body
                    in \<lparr>trk_hasGA = some_included gaPatterns html,
                        trk_hasFB = some_included fbPatterns html,
                        trk_error = None\<rparr>)"

section \<open>The scheduled run\<close>

text \<open>
  The three durable slots: \<open>all-leads\<close> in the store \<open>leads\<close>, \<open>rotation\<close> and \<open>history\<close> in
  the store \<open>state\<close>. \<open>None\<close> is a slot never written (\<open>get\<close> returns \<open>null\<close>).
\<close>

record history_entry =
  h_timestamp :: string
  h_city :: string
  h_category :: string
  businessesFound :: nat
  leadsFound :: nat
  totalLeads :: nat

record store =
  all_leads :: "lead list option"
  rotation :: "rotation_state option"
  history :: "history_entry list option"

datatype slot = AllLeads | Rotation | History

text \<open>The four \<open>setJSON\<close> calls of the handler, in source order.\<close>

datatype set_call = SetLeads | SetHistory | SetRotation | SetRotationOnError

text \<open>
  What one invocation meets outside the program: the clock, the outcome of the Overpass
  request built for a category and a city (the body is the \<open>elements\<close> list of the parsed
  document, or the message of the exception \<open>JSON.parse\<close> throws), the outcome of the page
  request for each URL, which \<open>get\<close> calls throw and which \<open>setJSON\<close> calls are rejected
  (with the message).
\<close>

record world =
  now :: string
  overpass :: "string \<Rightarrow> city \<Rightarrow> (string + element list) http"
  fetch :: "string \<Rightarrow> string http"
  get_fails :: "slot \<Rightarrow> bool"
  set_error :: "set_call \<Rightarrow> string option"

text \<open>
  \<^verbatim>\<open>try { const x = await s.get(key, { type: 'json' }); v = x || dflt; } catch { v = dflt; }\<close>
\<close>

definition read_slot :: "bool \<Rightarrow> 'a option \<Rightarrow> 'a \<Rightarrow> 'a" where
  "read_slot fails stored dflt =
     (if fails then dflt else case stored of None \<Rightarrow> dflt | Some v \<Rightarrow> v)"

text \<open>\<open>searchOpenStreetMap(category, city, radius, limit)\<close>; \<open>Inl\<close> is a thrown error.\<close>

definition searchOpenStreetMap :: "world \<Rightarrow> string \<Rightarrow> city \<Rightarrow> nat \<Rightarrow> string + business list" where
  "searchOpenStreetMap w cat c limit =
     (case overpass w cat c of
        Rejected msg \<Rightarrow> Inl msg
      | Response status body \<Rightarrow>
          if status \<noteq> 200 then Inl (''Overpass API error: '' @ digits status)
          else (case body of
                  Inl msg \<Rightarrow> Inl msg
                | Inr elements \<Rightarrow>
                    if elements = [] then Inr []
                    else Inr (filter_and_deduplicate limit
                                (map (to_business (now w) cat c) elements))))"

text \<open>Step 2: the loop that checks each business and keeps the tracked ones.\<close>

fun qualifiedLeads :: "world \<Rightarrow> business list \<Rightarrow> lead list" where
  "qualifiedLeads w [] = []"
| "qualifiedLeads w (biz # rest) =
     (let tracking = checkWebsiteForTracking (fetch w) (website biz)
      in if trk_hasGA tracking \<or> trk_hasFB tracking
         then with_tracking biz (trk_hasGA tracking) (trk_hasFB tracking) # qualifiedLeads w rest
         else qualifiedLeads w rest)"

text \<open>
  Step 3, "dedupe by name + city":
  \<^verbatim>\<open>
    const existingKeys = new Set(allLeads.map(l =>
      `${l.name.toLowerCase()}-${l.scrapedCity.toLowerCase()}`));
    const newLeads = qualifiedLeads.filter(l => {
      const key = `${l.name.toLowerCase()}-${l.scrapedCity.toLowerCase()}`;
      return !existingKeys.has(key);
    });
    allLeads = [...allLeads, ...newLeads];
  \<close>
\<close>

definition lead_key :: "lead \<Rightarrow> string" where
  "lead_key l = toLowerCase (name l) @ ''-'' @ toLowerCase (scrapedCity l)"

definition newLeads :: "lead list \<Rightarrow> lead list \<Rightarrow> lead list" where
  "newLeads allLeads qualified =
     (let existingKeys = set (map lead_key allLeads)
      in filter (\<lambda>l. \<not> lead_key l \<in> existingKeys) qualified)"

definition ingest :: "lead list \<Rightarrow> lead list \<Rightarrow> lead list" where
  "ingest allLeads qualified = allLeads @ newLeads allLeads qualified"

text \<open>
  The response of the handler: \<open>{ success: true, city, category, newLeads, totalLeads }\<close>
  with status 200, or \<open>{ success: false, error, city, category }\<close> with status 500.
\<close>

datatype response = Ok200 string string nat nat | Error500 string string string

text \<open>An invocation returns a response, or its promise is rejected with an error.\<close>

datatype outcome = Returned response | Threw string

text \<open>
  The \<open>try\<close> block. It yields the store as written so far, the in-memory \<open>state\<close> object as
  it stands when the block is left, and either the response or the message of the error
  that leaves the block.
\<close>

definition try_block ::
  "world \<Rightarrow> store \<Rightarrow> rotation_state \<Rightarrow> city \<Rightarrow> string \<Rightarrow>
     store \<times> rotation_state \<times> (string + response)" where
  "try_block w st rs c cat =
     (case searchOpenStreetMap w cat c 30 of
        Inl msg \<Rightarrow> (st, rs, Inl msg)
      | Inr businesses \<Rightarrow>
          (let qualified = qualifiedLeads w businesses;
               existing = read_slot (get_fails w AllLeads) (all_leads st) [];
               new = newLeads existing qualified;
               allLeads = ingest existing qualified
           in (case set_error w SetLeads of
                 Some msg \<Rightarrow> (st, rs, Inl msg)
               | None \<Rightarrow>
                   (let st1 = st\<lparr>all_leads := Some allLeads\<rparr>;
                        existingHistory = read_slot (get_fails w History) (history st) [];
                        entry = \<lparr>h_timestamp = now w, h_city = city_name c, h_category = cat,
                                 businessesFound = length businesses,
                                 leadsFound = length new,
                                 totalLeads = length allLeads\<rparr>;
                        history' = take 100 (entry # existingHistory)
                    in (case set_error w SetHistory of
                          Some msg \<Rightarrow> (st1, rs, Inl msg)
                        | None \<Rightarrow>
                            (let st2 = st1\<lparr>history := Some history'\<rparr>;
                                 rs' = advance rs
                             in (case set_error w SetRotation of
                                   Some msg \<Rightarrow> (st2, rs', Inl msg)
                                 | None \<Rightarrow>
                                     (st2\<lparr>rotation := Some rs'\<rparr>, rs',
                                      Inr (Ok200 (city_name c) cat (length new)
                                             (length allLeads))))))))))"

text \<open>
  The handler: load the rotation state, project the current city and category, run the
  \<open>try\<close> block, and on an error run the \<open>catch\<close> block, which advances the in-memory state
  and writes it.
\<close>

definition handler :: "world \<Rightarrow> store \<Rightarrow> store \<times> outcome" where
  "handler w st =
     (let rs = read_slot (get_fails w Rotation) (rotation st) default_state;
          c = fst (current rs);
          cat = snd (current rs)
      in case try_block w st rs c cat of
           (st', rs', Inr resp) \<Rightarrow> (st', Returned resp)
         | (st', rs', Inl msg) \<Rightarrow>
             (let rs'' = advance rs'
              in (case set_error w SetRotationOnError of
                    Some m \<Rightarrow> (st', Threw m)
                  | None \<Rightarrow>
                      (st'\<lparr>rotation := Some rs''\<rparr>,
                       Returned (Error500 msg (city_name c) cat)))))"

text \<open>A sequence of invocations, each meeting its own world.\<close>

fun invocations :: "world list \<Rightarrow> store \<Rightarrow> store" where
  "invocations [] st = st"
| "invocations (w # ws) st = invocations ws (fst (handler w st))"

section \<open>Location resolution (command-line script)\<close>

record us_city =
  uc_lat :: real
  uc_lon :: real
  uc_name :: string

definition US_CITIES :: "(string \<times> us_city) list" where
  "US_CITIES = [
    (''los angeles'', \<lparr>uc_lat = 34.0522, uc_lon = -118.2437, uc_name = ''Los Angeles, CA''\<rparr>),
    (''new york'', \<lparr>uc_lat = 40.7128, uc_lon = -74.0060, uc_name = ''New York, NY''\<rparr>),
    (''chicago'', \<lparr>uc_lat = 41.8781, uc_lon = -87.6298, uc_name = ''Chicago, IL''\<rparr>),
    (''houston'', \<lparr>uc_lat = 29.7604, uc_lon = -95.3698, uc_name = ''Houston, TX''\<rparr>),
    (''phoenix'', \<lparr>uc_lat = 33.4484, uc_lon = -112.0740, uc_name = ''Phoenix, AZ''\<rparr>),
    (''philadelphia'', \<lparr>uc_lat = 39.9526, uc_lon = -75.1652, uc_name = ''Philadelphia, PA''\<rparr>),
    (''san antonio'', \<lparr>uc_lat = 29.4241, uc_lon = -98.4936, uc_name = ''San Antonio, TX''\<rparr>),
    (''san diego'', \<lparr>uc_lat = 32.7157, uc_lon = -117.1611, uc_name = ''San Diego, CA''\<rparr>),
    (''dallas'', \<lparr>uc_lat = 32.7767, uc_lon = -96.7970, uc_name = ''Dallas, TX''\<rparr>),
    (''san jose'', \<lparr>uc_lat = 37.3382, uc_lon = -121.8863, uc_name = ''San Jose, CA''\<rparr>),
    (''austin'', \<lparr>uc_lat = 30.2672, uc_lon = -97.7431, uc_name = ''Austin, TX''\<rparr>),
    (''jacksonville'', \<lparr>uc_lat = 30.3322, uc_lon = -81.6557, uc_name = ''Jacksonville, FL''\<rparr>),
    (''san francisco'', \<lparr>uc_lat = 37.7749, uc_lon = -122.4194, uc_name = ''San Francisco, CA''\<rparr>),
    (''columbus'', \<lparr>uc_lat = 39.9612, uc_lon = -82.9988, uc_name = ''Columbus, OH''\<rparr>),
    (''fort worth'', \<lparr>uc_lat = 32.7555, uc_lon = -97.3308, uc_name = ''Fort Worth, TX''\<rparr>),
    (''indianapolis'', \<lparr>uc_lat = 39.7684, uc_lon = -86.1581, uc_name = ''Indianapolis, IN''\<rparr>),
    (''charlotte'', \<lparr>uc_lat = 35.2271, uc_lon = -80.8431, uc_name = ''Charlotte, NC''\<rparr>),
    (''seattle'', \<lparr>uc_lat = 47.6062, uc_lon = -122.3321, uc_name = ''Seattle, WA''\<rparr>),
    (''denver'', \<lparr>uc_lat = 39.7392, uc_lon = -104.9903, uc_name = ''Denver, CO''\<rparr>),
    (''washington'', \<lparr>uc_lat = 38.9072, uc_lon = -77.0369, uc_name = ''Washington, DC''\<rparr>),
    (''boston'', \<lparr>uc_lat = 42.3601, uc_lon = -71.0589, uc_name = ''Boston, MA''\<rparr>),
    (''nashville'', \<lparr>uc_lat = 36.1627, uc_lon = -86.7816, uc_name = ''Nashville, TN''\<rparr>),
    (''detroit'', \<lparr>uc_lat = 42.3314, uc_lon = -83.0458, uc_name = ''Detroit, MI''\<rparr>),
    (''portland'', \<lparr>uc_lat = 45.5152, uc_lon = -122.6784, uc_name = ''Portland, OR''\<rparr>),
    (''las vegas'', \<lparr>uc_lat = 36.1699, uc_lon = -115.1398, uc_name = ''Las Vegas, NV''\<rparr>),
    (''memphis'', \<lparr>uc_lat = 35.1495, uc_lon = -90.0490, uc_name = ''Memphis, TN''\<rparr>),
    (''louisville'', \<lparr>uc_lat = 38.2527, uc_lon = -85.7585, uc_name = ''Louisville, KY''\<rparr>),
    (''baltimore'', \<lparr>uc_lat = 39.2904, uc_lon = -76.6122, uc_name = ''Baltimore, MD''\<rparr>),
    (''milwaukee'', \<lparr>uc_lat = 43.0389, uc_lon = -87.9065, uc_name = ''Milwaukee, WI''\<rparr>),
    (''albuquerque'', \<lparr>uc_lat = 35.0844, uc_lon = -106.6504, uc_name = ''Albuquerque, NM''\<rparr>),
    (''tucson'', \<lparr>uc_lat = 32.2226, uc_lon = -110.9747, uc_name = ''Tucson, AZ''\<rparr>),
    (''fresno'', \<lparr>uc_lat = 36.7378, uc_lon = -119.7871, uc_name = ''Fresno, CA''\<rparr>),
    (''sacramento'', \<lparr>uc_lat = 38.5816, uc_lon = -121.4944, uc_name = ''Sacramento, CA''\<rparr>),
    (''atlanta'', \<lparr>uc_lat = 33.7490, uc_lon = -84.3880, uc_name = ''Atlanta, GA''\<rparr>),
    (''miami'', \<lparr>uc_lat = 25.7617, uc_lon = -80.1918, uc_name = ''Miami, FL''\<rparr>),
    (''oakland'', \<lparr>uc_lat = 37.8044, uc_lon = -122.2712, uc_name = ''Oakland, CA''\<rparr>),
    (''minneapolis'', \<lparr>uc_lat = 44.9778, uc_lon = -93.2650, uc_name = ''Minneapolis, MN''\<rparr>),
    (''cleveland'', \<lparr>uc_lat = 41.4993, uc_lon = -81.6944, uc_name = ''Cleveland, OH''\<rparr>),
    (''raleigh'', \<lparr>uc_lat = 35.7796, uc_lon = -78.6382, uc_name = ''Raleigh, NC''\<rparr>),
    (''tampa'', \<lparr>uc_lat = 27.9506, uc_lon = -82.4572, uc_name = ''Tampa, FL''\<rparr>),
    (''orlando'', \<lparr>uc_lat = 28.5383, uc_lon = -81.3792, uc_name = ''Orlando, FL''\<rparr>),
    (''pittsburgh'', \<lparr>uc_lat = 40.4406, uc_lon = -79.9959, uc_name = ''Pittsburgh, PA''\<rparr>),
    (''cincinnati'', \<lparr>uc_lat = 39.1031, uc_lon = -84.5120, uc_name = ''Cincinnati, OH''\<rparr>),
    (''st louis'', \<lparr>uc_lat = 38.6270, uc_lon = -90.1994, uc_name = ''St. Louis, MO''\<rparr>),
    (''salt lake city'', \<lparr>uc_lat = 40.7608, uc_lon = -111.8910, uc_name = ''Salt Lake City, UT''\<rparr>),
    (''roseville'', \<lparr>uc_lat = 38.7521, uc_lon = -121.2880, uc_name = ''Roseville, CA''\<rparr>),
    (''folsom'', \<lparr>uc_lat = 38.6780, uc_lon = -121.1761, uc_name = ''Folsom, CA''\<rparr>),
    (''elk grove'', \<lparr>uc_lat = 38.4088, uc_lon = -121.3716, uc_name = ''Elk Grove, CA''\<rparr>),
    (''rocklin'', \<lparr>uc_lat = 38.7907, uc_lon = -121.2358, uc_name = ''Rocklin, CA''\<rparr>),
    (''citrus heights'', \<lparr>uc_lat = 38.7071, uc_lon = -121.2811, uc_name = ''Citrus Heights, CA''\<rparr>),
    (''rancho cordova'', \<lparr>uc_lat = 38.5891, uc_lon = -121.3028, uc_name = ''Rancho Cordova, CA''\<rparr>),
    (''davis'', \<lparr>uc_lat = 38.5449, uc_lon = -121.7405, uc_name = ''Davis, CA''\<rparr>),
    (''woodland'', \<lparr>uc_lat = 38.6785, uc_lon = -121.7733, uc_name = ''Woodland, CA''\<rparr>),
    (''vacaville'', \<lparr>uc_lat = 38.3566, uc_lon = -121.9877, uc_name = ''Vacaville, CA''\<rparr>),
    (''fairfield'', \<lparr>uc_lat = 38.2494, uc_lon = -122.0400, uc_name = ''Fairfield, CA''\<rparr>),
    (''vallejo'', \<lparr>uc_lat = 38.1041, uc_lon = -122.2566, uc_name = ''Vallejo, CA''\<rparr>),
    (''napa'', \<lparr>uc_lat = 38.2975, uc_lon = -122.2869, uc_name = ''Napa, CA''\<rparr>),
    (''santa rosa'', \<lparr>uc_lat = 38.4404, uc_lon = -122.7141, uc_name = ''Santa Rosa, CA''\<rparr>),
    (''stockton'', \<lparr>uc_lat = 37.9577, uc_lon = -121.2908, uc_name = ''Stockton, CA''\<rparr>),
    (''modesto'', \<lparr>uc_lat = 37.6391, uc_lon = -120.9969, uc_name = ''Modesto, CA''\<rparr>),
    (''berkeley'', \<lparr>uc_lat = 37.8716, uc_lon = -122.2727, uc_name = ''Berkeley, CA''\<rparr>),
    (''fremont'', \<lparr>uc_lat = 37.5485, uc_lon = -121.9886, uc_name = ''Fremont, CA''\<rparr>),
    (''hayward'', \<lparr>uc_lat = 37.6688, uc_lon = -122.0808, uc_name = ''Hayward, CA''\<rparr>),
    (''sunnyvale'', \<lparr>uc_lat = 37.3688, uc_lon = -122.0363, uc_name = ''Sunnyvale, CA''\<rparr>),
    (''santa clara'', \<lparr>uc_lat = 37.3541, uc_lon = -121.9552, uc_name = ''Santa Clara, CA''\<rparr>),
    (''mountain view'', \<lparr>uc_lat = 37.3861, uc_lon = -122.0839, uc_name = ''Mountain View, CA''\<rparr>),
    (''palo alto'', \<lparr>uc_lat = 37.4419, uc_lon = -122.1430, uc_name = ''Palo Alto, CA''\<rparr>),
    (''redwood city'', \<lparr>uc_lat = 37.4852, uc_lon = -122.2364, uc_name = ''Redwood City, CA''\<rparr>),
    (''san mateo'', \<lparr>uc_lat = 37.5630, uc_lon = -122.3255, uc_name = ''San Mateo, CA''\<rparr>),
    (''daly city'', \<lparr>uc_lat = 37.6879, uc_lon = -122.4702, uc_name = ''Daly City, CA''\<rparr>),
    (''concord'', \<lparr>uc_lat = 37.9780, uc_lon = -122.0311, uc_name = ''Concord, CA''\<rparr>),
    (''walnut creek'', \<lparr>uc_lat = 37.9101, uc_lon = -122.0652, uc_name = ''Walnut Creek, CA''\<rparr>),
    (''richmond'', \<lparr>uc_lat = 37.9358, uc_lon = -122.3478, uc_name = ''Richmond, CA''\<rparr>),
    (''antioch'', \<lparr>uc_lat = 38.0049, uc_lon = -121.8058, uc_name = ''Antioch, CA''\<rparr>),
    (''pleasanton'', \<lparr>uc_lat = 37.6624, uc_lon = -121.8747, uc_name = ''Pleasanton, CA''\<rparr>),
    (''livermore'', \<lparr>uc_lat = 37.6819, uc_lon = -121.7680, uc_name = ''Livermore, CA''\<rparr>),
    (''long beach'', \<lparr>uc_lat = 33.7701, uc_lon = -118.1937, uc_name = ''Long Beach, CA''\<rparr>),
    (''anaheim'', \<lparr>uc_lat = 33.8366, uc_lon = -117.9143, uc_name = ''Anaheim, CA''\<rparr>),
    (''santa ana'', \<lparr>uc_lat = 33.7455, uc_lon = -117.8677, uc_name = ''Santa Ana, CA''\<rparr>),
    (''irvine'', \<lparr>uc_lat = 33.6846, uc_lon = -117.8265, uc_name = ''Irvine, CA''\<rparr>),
    (''huntington beach'', \<lparr>uc_lat = 33.6595, uc_lon = -117.9988, uc_name = ''Huntington Beach, CA''\<rparr>),
    (''glendale'', \<lparr>uc_lat = 34.1425, uc_lon = -118.2551, uc_name = ''Glendale, CA''\<rparr>),
    (''pasadena'', \<lparr>uc_lat = 34.1478, uc_lon = -118.1445, uc_name = ''Pasadena, CA''\<rparr>),
    (''torrance'', \<lparr>uc_lat = 33.8358, uc_lon = -118.3406, uc_name = ''Torrance, CA''\<rparr>),
    (''pomona'', \<lparr>uc_lat = 34.0551, uc_lon = -117.7500, uc_name = ''Pomona, CA''\<rparr>),
    (''ontario'', \<lparr>uc_lat = 34.0633, uc_lon = -117.6509, uc_name = ''Ontario, CA''\<rparr>),
    (''rancho cucamonga'', \<lparr>uc_lat = 34.1064, uc_lon = -117.5931, uc_name = ''Rancho Cucamonga, CA''\<rparr>),
    (''riverside'', \<lparr>uc_lat = 33.9533, uc_lon = -117.3962, uc_name = ''Riverside, CA''\<rparr>),
    (''corona'', \<lparr>uc_lat = 33.8753, uc_lon = -117.5664, uc_name = ''Corona, CA''\<rparr>),
    (''moreno valley'', \<lparr>uc_lat = 33.9425, uc_lon = -117.2297, uc_name = ''Moreno Valley, CA''\<rparr>),
    (''fontana'', \<lparr>uc_lat = 34.0922, uc_lon = -117.4350, uc_name = ''Fontana, CA''\<rparr>),
    (''san bernardino'', \<lparr>uc_lat = 34.1083, uc_lon = -117.2898, uc_name = ''San Bernardino, CA''\<rparr>),
    (''santa monica'', \<lparr>uc_lat = 34.0195, uc_lon = -118.4912, uc_name = ''Santa Monica, CA''\<rparr>),
    (''burbank'', \<lparr>uc_lat = 34.1808, uc_lon = -118.3090, uc_name = ''Burbank, CA''\<rparr>),
    (''costa mesa'', \<lparr>uc_lat = 33.6411, uc_lon = -117.9187, uc_name = ''Costa Mesa, CA''\<rparr>),
    (''newport beach'', \<lparr>uc_lat = 33.6189, uc_lon = -117.9289, uc_name = ''Newport Beach, CA''\<rparr>),
    (''fullerton'', \<lparr>uc_lat = 33.8703, uc_lon = -117.9242, uc_name = ''Fullerton, CA''\<rparr>),
    (''orange'', \<lparr>uc_lat = 33.7879, uc_lon = -117.8531, uc_name = ''Orange, CA''\<rparr>),
    (''oceanside'', \<lparr>uc_lat = 33.1959, uc_lon = -117.3795, uc_name = ''Oceanside, CA''\<rparr>),
    (''carlsbad'', \<lparr>uc_lat = 33.1581, uc_lon = -117.3506, uc_name = ''Carlsbad, CA''\<rparr>),
    (''escondido'', \<lparr>uc_lat = 33.1192, uc_lon = -117.0864, uc_name = ''Escondido, CA''\<rparr>),
    (''temecula'', \<lparr>uc_lat = 33.4936, uc_lon = -117.1484, uc_name = ''Temecula, CA''\<rparr>),
    (''murrieta'', \<lparr>uc_lat = 33.5539, uc_lon = -117.2139, uc_name = ''Murrieta, CA''\<rparr>),
    (''santa barbara'', \<lparr>uc_lat = 34.4208, uc_lon = -119.6982, uc_name = ''Santa Barbara, CA''\<rparr>),
    (''ventura'', \<lparr>uc_lat = 34.2805, uc_lon = -119.2945, uc_name = ''Ventura, CA''\<rparr>),
    (''oxnard'', \<lparr>uc_lat = 34.1975, uc_lon = -119.1771, uc_name = ''Oxnard, CA''\<rparr>),
    (''thousand oaks'', \<lparr>uc_lat = 34.1706, uc_lon = -118.8376, uc_name = ''Thousand Oaks, CA''\<rparr>),
    (''simi valley'', \<lparr>uc_lat = 34.2694, uc_lon = -118.7815, uc_name = ''Simi Valley, CA''\<rparr>),
    (''bakersfield'', \<lparr>uc_lat = 35.3733, uc_lon = -119.0187, uc_name = ''Bakersfield, CA''\<rparr>),
    (''visalia'', \<lparr>uc_lat = 36.3302, uc_lon = -119.2921, uc_name = ''Visalia, CA''\<rparr>),
    (''san luis obispo'', \<lparr>uc_lat = 35.2828, uc_lon = -120.6596, uc_name = ''San Luis Obispo, CA''\<rparr>),
    (''santa cruz'', \<lparr>uc_lat = 36.9741, uc_lon = -122.0308, uc_name = ''Santa Cruz, CA''\<rparr>),
    (''monterey'', \<lparr>uc_lat = 36.6002, uc_lon = -121.8947, uc_name = ''Monterey, CA''\<rparr>),
    (''salinas'', \<lparr>uc_lat = 36.6777, uc_lon = -121.6555, uc_name = ''Salinas, CA''\<rparr>)]"

record coords =
  lat :: real
  lon :: real
  displayName :: string

text \<open>
  The local lookup: \<open>for (const [city, coords] of Object.entries(US_CITIES))\<close> with
  \<open>if (locationLower.includes(city)) return ...\<close>; the entries come in the order written.
\<close>

fun local_lookup :: "string \<Rightarrow> (string \<times> us_city) list \<Rightarrow> coords option" where
  "local_lookup locationLower [] = None"
| "local_lookup locationLower ((cityKey, c) # rest) =
     (if str_includes locationLower cityKey
      then Some \<lparr>lat = uc_lat c, lon = uc_lon c, displayName = uc_name c\<rparr>
      else local_lookup locationLower rest)"

text \<open>
  A candidate of the Nominatim answer, with \<open>parseFloat(result.lat)\<close> and
  \<open>parseFloat(result.lon)\<close> as the numbers they denote.
\<close>

record candidate =
  cand_lat :: real
  cand_lon :: real
  display_name :: string

definition suggested :: string where
  "suggested = join '', '' (take 10 (map fst US_CITIES))"

text \<open>
  \<open>geocodeLocation(location)\<close>. \<open>nominatim\<close> gives the outcome of the search request for a
  query text (the body is the parsed candidate list, \<open>null\<close> counted as the empty list, or the
  message of the exception \<open>JSON.parse\<close> throws). The result is the coordinates or the message
  of the thrown error, together with the queries sent to the service, in order.
\<close>

definition geocodeLocation ::
  "(string \<Rightarrow> (string + candidate list) http) \<Rightarrow> string \<Rightarrow> (string + coords) \<times> string list" where
  "geocodeLocation nominatim location =
     (case local_lookup (toLowerCase location) US_CITIES of
        Some c \<Rightarrow> (Inr c, [])
      | None \<Rightarrow>
          (case nominatim location of
             Rejected msg \<Rightarrow> (Inl msg, [location])
           | Response status body \<Rightarrow>
               if status = 403 \<or> status = 429
               then (Inl (''Nominatim rate limited. Try one of these cities: '' @ suggested),
                     [location])
               else if status \<noteq> 200
               then (Inl (''Geocoding failed with status '' @ digits status), [location])
               else (case body of
                       Inl msg \<Rightarrow> (Inl msg, [location])
                     | Inr [] \<Rightarrow>
                         (Inl (''Could not find location: '' @ location @ ''. Try one of: ''
                               @ suggested), [location])
                     | Inr (result # others) \<Rightarrow>
                         (Inr \<lparr>lat = cand_lat result, lon = cand_lon result,
                               displayName = display_name result\<rparr>, [location]))))"

section \<open>CSV output\<close>

text \<open>
  \<^verbatim>\<open>
    const escape = (field) => {
      const str = String(field || '');
      if (str.includes(',') || str.includes('"') || str.includes('\n')) {
        return `"${str.replace(/"/g, '""')}"`;
      }
      return str;
    };
  \<close>
  The same text stands in the endpoint and in the command-line script. Fields are strings
  (a missing field is the empty string). \<open>CHR 0x22\<close> is the double quote, \<open>CHR 0x0A\<close> the
  newline.
\<close>

definition double_quotes :: "string \<Rightarrow> string" where
  "double_quotes str = concat (map (\<lambda>c. if c = CHR 0x22 then [CHR 0x22, CHR 0x22] else [c]) str)"

definition escape :: "string \<Rightarrow> string" where
  "escape str =
     (if str_includes str '','' \<or> str_includes str [CHR 0x22] \<or> str_includes str [CHR 0x0A]
      then [CHR 0x22] @ double_quotes str @ [CHR 0x22]
      else str)"

text \<open>\<open>[headers.map(escape).join(','), ...rows.map(row => row.map(escape).join(','))].join('\n')\<close>\<close>

definition csv_lines :: "string list list \<Rightarrow> string" where
  "csv_lines rows = join [CHR 0x0A] (map (\<lambda>row. join '','' (map escape row)) rows)"

definition yes :: "bool \<Rightarrow> string" where
  "yes b = (if b then ''YES'' else [])"

text \<open>The endpoint's columns.\<close>

definition headers :: "string list" where
  "headers = [
     ''Business Name'', ''Category'', ''Website'', ''Phone'', ''Email'',
     ''Address'', ''City'', ''State'', ''Has GA?'', ''Has FB Pixel?'',
     ''Scraped At'', ''Source'']"

definition row_of :: "lead \<Rightarrow> string list" where
  "row_of l = [
     name l, category l, website l, phone l, email l,
     address l, city l, state l,
     yes (hasGA l), yes (hasFB l),
     scrapedAt l, source l]"

definition toCSV :: "lead list \<Rightarrow> string" where
  "toCSV leads = csv_lines (headers # map row_of leads)"

text \<open>The command-line script's columns (\<open>toCSV\<close> of the script).\<close>

definition headers_cli :: "string list" where
  "headers_cli = [
     ''Business Name'', ''Category'', ''Website'', ''Phone'', ''Email'',
     ''Address'', ''City'', ''State'', ''Has GA?'', ''Has FB Pixel?'',
     ''Contacted?'', ''Notes'', ''Source'']"

definition row_of_cli :: "lead \<Rightarrow> string list" where
  "row_of_cli biz = [
     name biz, category biz, website biz, phone biz, email biz,
     address biz, city biz, state biz,
     yes (hasGA biz), yes (hasFB biz),
     [], [],
     source biz]"

definition toCSV_cli :: "lead list \<Rightarrow> string" where
  "toCSV_cli businesses = csv_lines (headers_cli # map row_of_cli businesses)"

text \<open>
  A CSV reader, as the reference the output is read back with (it is not part of the
  repository): records end at a newline, fields at a comma; a field that starts with a
  double quote runs to the closing double quote, and two double quotes inside it stand for
  one. A carriage return is an ordinary character to this reader. The result is the list of
  records, each a list of fields.
\<close>

datatype reader_state = FieldStart | Unquoted | Quoted | QuoteSeen

fun add_char :: "char \<Rightarrow> string list list \<Rightarrow> string list list" where
  "add_char c ((f # fs) # recs) = ((c # f) # fs) # recs"
| "add_char c recs = recs"

fun new_field :: "string list list \<Rightarrow> string list list" where
  "new_field (fs # recs) = ([] # fs) # recs"
| "new_field [] = []"

definition new_record :: "string list list \<Rightarrow> string list list" where
  "new_record recs = [[]] # recs"

fun csv_read :: "reader_state \<Rightarrow> string \<Rightarrow> string list list" where
  "csv_read q [] = [[[]]]"
| "csv_read Quoted (c # cs) =
     (if c = CHR 0x22 then csv_read QuoteSeen cs else add_char c (csv_read Quoted cs))"
| "csv_read QuoteSeen (c # cs) =
     (if c = CHR 0x22 then add_char c (csv_read Quoted cs)
      else if c = CHR '','' then new_field (csv_read FieldStart cs)
      else if c = CHR 0x0A then new_record (csv_read FieldStart cs)
      else add_char c (csv_read Unquoted cs))"
| "csv_read FieldStart (c # cs) =
     (if c = CHR 0x22 then csv_read Quoted cs
      else if c = CHR '','' then new_field (csv_read FieldStart cs)
      else if c = CHR 0x0A then new_record (csv_read FieldStart cs)
      else add_char c (csv_read Unquoted cs))"
| "csv_read Unquoted (c # cs) =
     (if c = CHR '','' then new_field (csv_read FieldStart cs)
      else if c = CHR 0x0A then new_record (csv_read FieldStart cs)
      else add_char c (csv_read Unquoted cs))"

definition standard_csv_read :: "string \<Rightarrow> string list list" where
  "standard_csv_read = csv_read FieldStart"

section \<open>Password-gated read endpoints\<close>










section \<open>Auxiliary definitions for the proofs\<close>


text \<open>
  The rotation state an invocation starts from when the read of the slot does not throw:
  the stored state, or the default state for a slot never written.
\<close>

definition loaded_state :: "store \<Rightarrow> rotation_state" where
  "loaded_state st = read_slot False (rotation st) default_state"

text \<open>
  An invocation whose accesses to the rotation slot all succeed: the \<open>get\<close> does not throw
  and neither \<open>setJSON\<close> call is rejected.
\<close>

definition rotation_io_ok :: "world \<Rightarrow> bool" where
  "rotation_io_ok w =
     (\<not> get_fails w Rotation \<and> set_error w SetRotation = None
      \<and> set_error w SetRotationOnError = None)"

text \<open>Accumulators of the CSV reader over a whole field and over a list of fields.\<close>

fun add_chars :: "string \<Rightarrow> string list list \<Rightarrow> string list list" where
  "add_chars f ((g # fs) # recs) = ((f @ g) # fs) # recs"
| "add_chars f recs = recs"

fun add_fields :: "string list \<Rightarrow> string list list \<Rightarrow> string list list" where
  "add_fields fs (r # recs) = (fs @ r) # recs"
| "add_fields fs [] = []"

definition at_separator :: "string \<Rightarrow> bool" where
  "at_separator rest = (rest = [] \<or> hd rest = CHR '','' \<or> hd rest = CHR 0x0A)"

subsection \<open>Concrete instances\<close>

definition example_business :: "string \<Rightarrow> string \<Rightarrow> string \<Rightarrow> business" where
  "example_business n w c =
     \<lparr>name = n, category = ''dentist'', website = w, phone = [], email = [],
      address = [], city = c, state = [], source = ''OpenStreetMap'',
      scrapedAt = ''2025-12-09T10:00:00.000Z'', scrapedCity = c\<rparr>"

definition example_lead :: "string \<Rightarrow> string \<Rightarrow> lead" where
  "example_lead n c = with_tracking (example_business n ''smile.example'' c) True False"

definition example_entry :: history_entry where
  "example_entry =
     \<lparr>h_timestamp = ''2025-12-09T09:00:00.000Z'', h_city = ''Houston'',
      h_category = ''therapist'', businessesFound = 4, leadsFound = 1, totalLeads = 1\<rparr>"

definition example_store :: store where
  "example_store =
     \<lparr>all_leads = Some [example_lead ''Smile Dental'' ''Houston''],
      rotation = Some \<lparr>cityIndex = 3, categoryIndex = 5, totalRuns = 47\<rparr>,
      history = Some [example_entry]\<rparr>"

text \<open>A world in which the Overpass service answers 504 and every store access succeeds.\<close>

definition search_down :: world where
  "search_down =
     \<lparr>now = ''2025-12-09T10:00:00.000Z'',
      overpass = (\<lambda>cat c. Response 504 (Inl ''Unexpected token <'')),
      fetch = (\<lambda>url. Rejected ''Request timeout''),
      get_fails = (\<lambda>s. False),
      set_error = (\<lambda>c. None)\<rparr>"

text \<open>The same world, in which also the read of the rotation slot throws.\<close>

definition state_read_down :: world where
  "state_read_down = search_down\<lparr>get_fails := (\<lambda>s. s = Rotation)\<rparr>"

text \<open>
  A world in which the Overpass service returns one dentist with a website, whose page loads
  Google Tag Manager, and every store access succeeds.
\<close>

definition example_element :: element where
  "example_element =
     [''name'' \<mapsto> ''Bright Smiles'', ''website'' \<mapsto> ''bright.example'',
      ''addr:street'' \<mapsto> ''Main St'']"

definition search_up :: world where
  "search_up =
     \<lparr>now = ''2025-12-09T10:00:00.000Z'',
      overpass = (\<lambda>cat c. Response 200 (Inr [example_element])),
      fetch = (\<lambda>url. Response 200 ''<script src=https://www.GoogleTagManager.com/gtm.js>''),
      get_fails = (\<lambda>s. False),
      set_error = (\<lambda>c. None)\<rparr>"

text \<open>A page request answered with status 404 and a body that mentions both trackers.\<close>

definition fetch_404 :: "string \<Rightarrow> string http" where
  "fetch_404 = (\<lambda>url. Response 404 ''<script>gtag(1);fbq(2)</script>'')"

text \<open>A geocoding service that answers 500 with a candidate in the body.\<close>

definition nominatim_500 :: "string \<Rightarrow> (string + candidate list) http" where
  "nominatim_500 =
     (\<lambda>q. Response 500
        (Inr [\<lparr>cand_lat = 10, cand_lon = 20, display_name = ''Nowhereville, Atlantis''\<rparr>]))"

text \<open>A geocoding service that answers 200 with two candidates.\<close>

definition nominatim_found :: "string \<Rightarrow> (string + candidate list) http" where
  "nominatim_found =
     (\<lambda>q. Response 200
        (Inr [\<lparr>cand_lat = 10, cand_lon = 20, display_name = ''Nowhereville, Atlantis''\<rparr>,
              \<lparr>cand_lat = 30, cand_lon = 40, display_name = ''Nowhereville, Lemuria''\<rparr>]))"



text \<open>
  A lead whose address holds a comma, a double quote and a newline:
  \<open>12 "B" St, Suite 4\<close>, newline, \<open>Austin\<close>.
\<close>

definition tricky_address :: string where
  "tricky_address =
     ''12 '' @ [CHR 0x22] @ ''B'' @ [CHR 0x22] @ '' St, Suite 4'' @ [CHR 0x0A] @ ''Austin''"

definition tricky_lead :: lead where
  "tricky_lead = (example_lead ''Smile Dental'' ''Austin'')\<lparr>address := tricky_address\<rparr>"

text \<open>The world \<open>search_up\<close>, in which the read of the lead slot throws.\<close>

definition leads_read_down :: world where
  "leads_read_down = search_up\<lparr>get_fails := (\<lambda>s. s = AllLeads)\<rparr>"

text \<open>
  The world \<open>search_up\<close>, in which the write of the rotation slot at the end of the \<open>try\<close>
  block is rejected.
\<close>

definition rotation_write_down :: world where
  "rotation_write_down =
     search_up\<lparr>set_error := (\<lambda>c. if c = SetRotation then Some ''blob store unavailable''
                                 else None)\<rparr>"

text \<open>The lead that a run in \<open>search_up\<close> qualifies for chiropractors in Houston.\<close>

definition bright_lead :: lead where
  "bright_lead =
     with_tracking
       \<lparr>name = ''Bright Smiles'', category = ''chiropractor'', website = ''bright.example'',
        phone = [], email = [], address = ''Main St'', city = ''Houston'', state = [],
        source = ''OpenStreetMap'', scrapedAt = ''2025-12-09T10:00:00.000Z'',
        scrapedCity = ''Houston''\<rparr>
       True False"

text \<open>The fourth city of the table.\<close>

definition houston :: city where
  "houston = \<lparr>city_name = ''Houston'', city_lat = 29.7604, city_lon = -95.3698\<rparr>"

section \<open>Properties of the rotation\<close>


lemma advance_rotation_city:
  "cityIndex (advance_rotation C s) =
     (if categoryIndex s + 1 \<ge> C then cityIndex s + 1 else cityIndex s)"
  by (auto simp: advance_rotation_def Let_def)

lemma advance_rotation_runs: "totalRuns (advance_rotation C s) = totalRuns s + 1"
  by (auto simp: advance_rotation_def Let_def)







lemma funpow_runs: "totalRuns ((advance_rotation C ^^ n) s) = totalRuns s + n"
  by (induction n) (auto simp: advance_rotation_runs)


lemma length_CATEGORIES: "length CATEGORIES = 14"
  by (simp add: CATEGORIES_def)

lemma length_CITIES: "length CITIES = 50"
  by (simp add: CITIES_def)








section \<open>Properties of the ingest into the lead store\<close>

lemma newLeads_eq:
  "newLeads allLeads q = filter (\<lambda>l. lead_key l \<notin> lead_key ` set allLeads) q"
  by (simp add: newLeads_def)





lemma distinct_ingest:
  "distinct (map lead_key allLeads) \<Longrightarrow> distinct (map lead_key q)
     \<Longrightarrow> distinct (map lead_key (ingest allLeads q))"
  by (auto simp: ingest_def newLeads_eq distinct_map_filter image_iff)





section \<open>Properties of the scheduled run\<close>

lemma try_block_result:
  assumes "try_block w st rs c cat = (st', rs', r)"
  shows "(\<exists>resp. r = Inr resp) \<longrightarrow>
           rotation st' = Some (advance rs) \<and> set_error w SetRotation = None"
    and "(\<exists>msg. r = Inl msg) \<longrightarrow>
           rotation st' = rotation st
           \<and> (rs' = rs \<or> (rs' = advance rs \<and> set_error w SetRotation \<noteq> None))"
  using assms
  by (auto simp: try_block_def Let_def split: sum.splits option.splits)

lemma handler_advances_loaded:
  assumes "set_error w SetRotation = None" and "set_error w SetRotationOnError = None"
  shows "rotation (fst (handler w st))
       = Some (advance (read_slot (get_fails w Rotation) (rotation st) default_state))"
proof -
  let ?rs = "read_slot (get_fails w Rotation) (rotation st) default_state"
  obtain st' rs' r
    where t: "try_block w st ?rs (fst (current ?rs)) (snd (current ?rs)) = (st', rs', r)"
    by (cases "try_block w st ?rs (fst (current ?rs)) (snd (current ?rs))") auto
  show ?thesis
  proof (cases r)
    case (Inl msg)
    then have "rs' = ?rs" and "rotation st' = rotation st"
      using try_block_result(2)[OF t] assms by auto
    then show ?thesis using t Inl assms by (simp add: handler_def Let_def)
  next
    case (Inr resp)
    then have "rotation st' = Some (advance ?rs)"
      using try_block_result(1)[OF t] by auto
    then show ?thesis using t Inr by (simp add: handler_def Let_def)
  qed
qed

lemma handler_advances_once:
  assumes "rotation_io_ok w"
  shows "rotation (fst (handler w st)) = Some (advance (loaded_state st))"
  using assms handler_advances_loaded[of w st]
  by (simp add: rotation_io_ok_def loaded_state_def)

lemma loaded_after: "rotation st = Some rs \<Longrightarrow> loaded_state st = rs"
  by (simp add: loaded_state_def read_slot_def)

lemma invocations_advance:
  assumes "\<forall>w \<in> set ws. rotation_io_ok w" and "ws \<noteq> []"
  shows "rotation (invocations ws st) = Some ((advance ^^ length ws) (loaded_state st))"
  using assms
proof (induction ws arbitrary: st)
  case Nil
  then show ?case by simp
next
  case (Cons w ws)
  have 1: "rotation (fst (handler w st)) = Some (advance (loaded_state st))"
    using Cons.prems by (simp add: handler_advances_once)
  show ?case
  proof (cases "ws = []")
    case True
    then show ?thesis using 1 by simp
  next
    case False
    then have "rotation (invocations ws (fst (handler w st)))
        = Some ((advance ^^ length ws) (loaded_state (fst (handler w st))))"
      using Cons by simp
    then show ?thesis using loaded_after[OF 1] by (simp add: funpow_swap1)
  qed
qed

lemma advance_funpow_runs: "totalRuns ((advance ^^ n) s) = totalRuns s + n"
  by (simp add: advance_def funpow_runs)

text \<open>The two ways out of the handler when every write it attempts is accepted.\<close>

lemma handler_search_failure:
  assumes "rs = read_slot (get_fails w Rotation) (rotation st) default_state"
    and "searchOpenStreetMap w (snd (current rs)) (fst (current rs)) 30 = Inl msg"
    and "set_error w SetRotationOnError = None"
  shows "handler w st = (st\<lparr>rotation := Some (advance rs)\<rparr>,
            Returned (Error500 msg (city_name (fst (current rs))) (snd (current rs))))"
  using assms by (simp add: handler_def try_block_def Let_def)

lemma handler_success:
  assumes "rs = read_slot (get_fails w Rotation) (rotation st) default_state"
    and "searchOpenStreetMap w (snd (current rs)) (fst (current rs)) 30 = Inr businesses"
    and "set_error w SetLeads = None" and "set_error w SetHistory = None"
    and "set_error w SetRotation = None"
    and "existing = read_slot (get_fails w AllLeads) (all_leads st) []"
    and "qualified = qualifiedLeads w businesses"
  shows "handler w st =
     (\<lparr>all_leads = Some (ingest existing qualified),
       rotation = Some (advance rs),
       history = Some (take 100
         (\<lparr>h_timestamp = now w, h_city = city_name (fst (current rs)),
           h_category = snd (current rs),
           businessesFound = length businesses,
           leadsFound = length (newLeads existing qualified),
           totalLeads = length (ingest existing qualified)\<rparr>
          # read_slot (get_fails w History) (history st) []))\<rparr>,
      Returned (Ok200 (city_name (fst (current rs))) (snd (current rs))
                 (length (newLeads existing qualified)) (length (ingest existing qualified))))"
  using assms by (simp add: handler_def try_block_def Let_def)

text \<open>
  When the write of the rotation slot at the end of the \<open>try\<close> block is rejected, the
  \<open>catch\<close> block advances the state object that the \<open>try\<close> block has already advanced: the
  state it then writes is two steps on.
\<close>

lemma handler_rotation_write_retry:
  assumes "rs = read_slot (get_fails w Rotation) (rotation st) default_state"
    and "searchOpenStreetMap w (snd (current rs)) (fst (current rs)) 30 = Inr businesses"
    and "set_error w SetLeads = None" and "set_error w SetHistory = None"
    and "set_error w SetRotation = Some m" and "set_error w SetRotationOnError = None"
  shows "rotation (fst (handler w st)) = Some (advance (advance rs))"
  using assms by (simp add: handler_def try_block_def Let_def)

subsection \<open>Concrete runs\<close>

lemma digits_504: "digits 504 = ''504''"
  by code_simp

lemma current_example:
  "current \<lparr>cityIndex = 3, categoryIndex = 5, totalRuns = 47\<rparr>
     = (\<lparr>city_name = ''Houston'', city_lat = 29.7604, city_lon = -95.3698\<rparr>, ''chiropractor'')"
  by (simp add: current_def current_of_def CITIES_def CATEGORIES_def)

lemma search_down_fails:
  "searchOpenStreetMap search_down cat c limit = Inl (''Overpass API error: '' @ digits 504)"
  "searchOpenStreetMap state_read_down cat c limit = Inl (''Overpass API error: '' @ digits 504)"
  by (simp_all add: searchOpenStreetMap_def search_down_def state_read_down_def)

lemma search_down_sel:
  "get_fails search_down s = False" "set_error search_down k = None"
  "get_fails state_read_down s = (s = Rotation)" "set_error state_read_down k = None"
  by (simp_all add: search_down_def state_read_down_def)

lemma search_up_sel:
  "get_fails search_up s = False" "set_error search_up k = None"
  by (simp_all add: search_up_def)

lemma search_up_succeeds:
  "searchOpenStreetMap search_up cat c limit
     = Inr (filter_and_deduplicate limit [to_business (now search_up) cat c example_element])"
  by (simp add: searchOpenStreetMap_def search_up_def)

lemma example_store_sel:
  "rotation example_store = Some \<lparr>cityIndex = 3, categoryIndex = 5, totalRuns = 47\<rparr>"
  "history example_store = Some [example_entry]"
  "all_leads example_store = Some [example_lead ''Smile Dental'' ''Houston'']"
  by (simp_all add: example_store_def)

lemma advance_examples:
  "advance \<lparr>cityIndex = 3, categoryIndex = 5, totalRuns = 47\<rparr>
     = \<lparr>cityIndex = 3, categoryIndex = 6, totalRuns = 48\<rparr>"
  "advance default_state = \<lparr>cityIndex = 0, categoryIndex = 1, totalRuns = 1\<rparr>"
  by (simp_all add: advance_def advance_rotation_def length_CATEGORIES default_state_def)

text \<open>
  C3, as stated, fails on the code. The handler catches a failed read of the rotation slot
  and starts from the default state: with 47 runs stored, an invocation whose read of the
  slot throws writes the state \<open>(cityIndex 0, categoryIndex 1, totalRuns 1)\<close>. The stored
  \<open>totalRuns\<close> goes down, and the stored state is not the stored state advanced once.
\<close>

theorem counter_reset_on_read_failure:
  "rotation example_store = Some \<lparr>cityIndex = 3, categoryIndex = 5, totalRuns = 47\<rparr>
   \<and> rotation (fst (handler state_read_down example_store))
       = Some \<lparr>cityIndex = 0, categoryIndex = 1, totalRuns = 1\<rparr>"
proof -
  have "handler state_read_down example_store
      = (example_store\<lparr>rotation := Some (advance default_state)\<rparr>,
         Returned (Error500 (''Overpass API error: '' @ digits 504)
                    (city_name (fst (current default_state))) (snd (current default_state))))"
    by (rule handler_search_failure)
       (simp_all add: search_down_sel read_slot_def search_down_fails)
  then show ?thesis by (simp add: example_store_sel advance_examples)
qed

text \<open>
  C3, amended. An invocation whose read of the rotation slot does not throw and whose
  writes of the rotation slot are accepted stores the state it loaded (the stored state, or
  the default state for a slot never written) advanced exactly once, with \<open>totalRuns\<close> one
  higher, whichever way the search, the detection and the lead and history slots go. Over
  any sequence of such invocations the stored state is the loaded state advanced once per
  invocation, so \<open>totalRuns\<close> grows by one per invocation and a failing search cannot hold
  the rotation on one combination. An invocation whose read of the rotation slot throws
  stores the default state advanced once.
\<close>

theorem scheduled_run_advances_once:
  "(rotation_io_ok w \<longrightarrow>
      rotation (fst (handler w st)) = Some (advance (loaded_state st))
      \<and> totalRuns (advance (loaded_state st)) = totalRuns (loaded_state st) + 1)
   \<and> ((\<forall>w' \<in> set ws. rotation_io_ok w') \<and> ws \<noteq> [] \<longrightarrow>
      rotation (invocations ws st) = Some ((advance ^^ length ws) (loaded_state st))
      \<and> totalRuns ((advance ^^ length ws) (loaded_state st))
          = totalRuns (loaded_state st) + length ws)
   \<and> (get_fails w Rotation \<and> set_error w SetRotation = None
        \<and> set_error w SetRotationOnError = None \<longrightarrow>
      rotation (fst (handler w st)) = Some (advance default_state))"
proof (intro conjI impI)
  assume "rotation_io_ok w"
  then show "rotation (fst (handler w st)) = Some (advance (loaded_state st))"
    by (rule handler_advances_once)
next
  show "totalRuns (advance (loaded_state st)) = totalRuns (loaded_state st) + 1"
    by (simp add: advance_def advance_rotation_runs)
next
  assume "(\<forall>w' \<in> set ws. rotation_io_ok w') \<and> ws \<noteq> []"
  then show "rotation (invocations ws st) = Some ((advance ^^ length ws) (loaded_state st))"
    by (simp add: invocations_advance)
next
  show "totalRuns ((advance ^^ length ws) (loaded_state st))
      = totalRuns (loaded_state st) + length ws"
    by (rule advance_funpow_runs)
next
  assume "get_fails w Rotation \<and> set_error w SetRotation = None
      \<and> set_error w SetRotationOnError = None"
  then show "rotation (fst (handler w st)) = Some (advance default_state)"
    using handler_advances_loaded[of w st] by (simp add: read_slot_def)
qed

theorem scheduled_run_advances_once_witness:
  "rotation_io_ok search_down \<and> rotation_io_ok search_up
   \<and> [search_down, search_up] \<noteq> []
   \<and> rotation (fst (handler search_down example_store))
       = Some (advance (loaded_state example_store))
   \<and> rotation (invocations [search_down, search_up] example_store)
       = Some ((advance ^^ length [search_down, search_up]) (loaded_state example_store))
   \<and> totalRuns ((advance ^^ length [search_down, search_up]) (loaded_state example_store))
       = totalRuns (loaded_state example_store) + length [search_down, search_up]
   \<and> get_fails state_read_down Rotation
   \<and> set_error state_read_down SetRotation = None
   \<and> set_error state_read_down SetRotationOnError = None
   \<and> rotation (fst (handler state_read_down example_store)) = Some (advance default_state)"
proof -
  have ok: "rotation_io_ok search_down" "rotation_io_ok search_up"
    by (simp_all add: rotation_io_ok_def search_down_sel search_up_sel)
  have all: "\<forall>w' \<in> set [search_down, search_up]. rotation_io_ok w'"
    using ok by simp
  have ne: "[search_down, search_up] \<noteq> []" by simp
  have down: "get_fails state_read_down Rotation"
    "set_error state_read_down SetRotation = None"
    "set_error state_read_down SetRotationOnError = None"
    by (simp_all add: search_down_sel)
  show ?thesis
    using scheduled_run_advances_once[of search_down example_store "[search_down, search_up]"]
      scheduled_run_advances_once[of state_read_down example_store "[search_down, search_up]"]
      ok all ne down
    by blast
qed

text \<open>
  C7, as stated, fails on the code. The \<open>catch\<close> block advances the rotation and answers
  with the error; it does not touch the history slot. With the Overpass service answering
  504 the run leaves the one stored history entry as the whole history.
\<close>

theorem no_history_entry_on_failure:
  "handler search_down example_store
     = (example_store\<lparr>rotation := Some \<lparr>cityIndex = 3, categoryIndex = 6, totalRuns = 48\<rparr>\<rparr>,
        Returned (Error500 ''Overpass API error: 504'' ''Houston'' ''chiropractor''))
   \<and> history (fst (handler search_down example_store)) = Some [example_entry]"
proof -
  let ?rs = "\<lparr>cityIndex = 3, categoryIndex = 5, totalRuns = 47\<rparr>"
  have "handler search_down example_store
      = (example_store\<lparr>rotation := Some (advance ?rs)\<rparr>,
         Returned (Error500 (''Overpass API error: '' @ digits 504)
                    (city_name (fst (current ?rs))) (snd (current ?rs))))"
    by (rule handler_search_failure)
       (simp_all add: search_down_sel read_slot_def search_down_fails example_store_sel)
  then show ?thesis
    by (simp add: example_store_sel advance_examples current_example digits_504)
qed

text \<open>What a run does to the history slot, path by path.\<close>

lemma handler_history_recorded:
  assumes "rs = read_slot (get_fails w Rotation) (rotation st) default_state"
    and "searchOpenStreetMap w (snd (current rs)) (fst (current rs)) 30 = Inr businesses"
    and "set_error w SetLeads = None" and "set_error w SetHistory = None"
    and "existing = read_slot (get_fails w AllLeads) (all_leads st) []"
    and "qualified = qualifiedLeads w businesses"
  shows "history (fst (handler w st)) = Some (take 100
         (\<lparr>h_timestamp = now w, h_city = city_name (fst (current rs)),
           h_category = snd (current rs),
           businessesFound = length businesses,
           leadsFound = length (newLeads existing qualified),
           totalLeads = length (ingest existing qualified)\<rparr>
          # read_slot (get_fails w History) (history st) []))"
  using assms
  by (simp add: handler_def try_block_def Let_def split: option.splits)

lemma handler_history_unchanged:
  assumes "rs = read_slot (get_fails w Rotation) (rotation st) default_state"
    and "(\<exists>msg. searchOpenStreetMap w (snd (current rs)) (fst (current rs)) 30 = Inl msg)
         \<or> set_error w SetLeads \<noteq> None \<or> set_error w SetHistory \<noteq> None"
  shows "history (fst (handler w st)) = history st"
  using assms
  by (auto simp: handler_def try_block_def Let_def split: option.splits sum.splits)

lemma handler_rotation_write_rejected:
  assumes "rs = read_slot (get_fails w Rotation) (rotation st) default_state"
    and "searchOpenStreetMap w (snd (current rs)) (fst (current rs)) 30 = Inr businesses"
    and "set_error w SetLeads = None" and "set_error w SetHistory = None"
    and "set_error w SetRotation = Some m" and "set_error w SetRotationOnError = None"
  shows "snd (handler w st) = Returned (Error500 m (city_name (fst (current rs))) (snd (current rs)))"
  using assms by (simp add: handler_def try_block_def Let_def)

subsection \<open>More concrete runs\<close>

lemma example_search_results:
  "qualifiedLeads search_up
     (filter_and_deduplicate 30
        [to_business (now search_up) ''chiropractor'' houston example_element])
     = [bright_lead]"
  "qualifiedLeads leads_read_down
     (filter_and_deduplicate 30
        [to_business (now leads_read_down) ''chiropractor'' houston example_element])
     = [bright_lead]"
  "qualifiedLeads rotation_write_down
     (filter_and_deduplicate 30
        [to_business (now rotation_write_down) ''chiropractor'' houston example_element])
     = [bright_lead]"
  "length (filter_and_deduplicate 30
        [to_business (now search_up) ''chiropractor'' houston example_element]) = 1"
  "length (filter_and_deduplicate 30
        [to_business (now rotation_write_down) ''chiropractor'' houston example_element]) = 1"
  "length (filter_and_deduplicate 30
        [to_business (now leads_read_down) ''chiropractor'' houston example_element]) = 1"
  "qualifiedLeads search_up
     (filter_and_deduplicate 30
        [to_business (now search_up) ''insurance'' houston example_element])
     = [bright_lead\<lparr>category := ''insurance''\<rparr>]"
  by code_simp+

lemma example_ingest:
  "ingest [example_lead ''Smile Dental'' ''Houston''] [bright_lead]
     = [example_lead ''Smile Dental'' ''Houston'', bright_lead]"
  "newLeads [example_lead ''Smile Dental'' ''Houston''] [bright_lead] = [bright_lead]"
  "ingest [] [bright_lead] = [bright_lead]"
  "ingest [example_lead ''Smile Dental'' ''Houston'', bright_lead]
     [bright_lead\<lparr>category := ''insurance''\<rparr>]
     = [example_lead ''Smile Dental'' ''Houston'', bright_lead]"
  by code_simp+

lemma current_houston:
  "current \<lparr>cityIndex = 3, categoryIndex = 5, totalRuns = 47\<rparr> = (houston, ''chiropractor'')"
  "current \<lparr>cityIndex = 3, categoryIndex = 6, totalRuns = 48\<rparr> = (houston, ''insurance'')"
  "city_name houston = ''Houston''"
  by (simp_all add: current_def current_of_def CITIES_def CATEGORIES_def houston_def)

lemma more_worlds_sel:
  "get_fails leads_read_down s = (s = AllLeads)" "set_error leads_read_down k = None"
  "get_fails rotation_write_down s = False"
  "set_error rotation_write_down k
     = (if k = SetRotation then Some ''blob store unavailable'' else None)"
  by (simp_all add: leads_read_down_def rotation_write_down_def search_up_def)

lemma worlds_now:
  "now search_up = ''2025-12-09T10:00:00.000Z''"
  "now leads_read_down = ''2025-12-09T10:00:00.000Z''"
  "now rotation_write_down = ''2025-12-09T10:00:00.000Z''"
  by (simp_all add: leads_read_down_def rotation_write_down_def search_up_def)

lemma more_worlds_search:
  "searchOpenStreetMap leads_read_down cat c limit
     = Inr (filter_and_deduplicate limit [to_business (now leads_read_down) cat c example_element])"
  "searchOpenStreetMap rotation_write_down cat c limit
     = Inr (filter_and_deduplicate limit
              [to_business (now rotation_write_down) cat c example_element])"
  by (simp_all add: searchOpenStreetMap_def leads_read_down_def rotation_write_down_def
      search_up_def)

text \<open>
  C7, amended. When the business search fails and the write of the rotation slot is
  accepted, the run changes nothing in the stores but the rotation slot, which holds the
  loaded state advanced once, and answers with the error, the city and the category: no
  history entry is recorded. The history slot is written exactly when the search succeeded
  and the writes of the lead slot and of the history slot were accepted: then it holds the
  new entry in front of the history that was read, cut to 100 entries, whether the run goes
  on to answer with success or, the write of the rotation slot being rejected, with an
  error. In every other case the history slot is left as it was.
\<close>

theorem run_history_entry:
  "rs = read_slot (get_fails w Rotation) (rotation st) default_state \<longrightarrow>
     (searchOpenStreetMap w (snd (current rs)) (fst (current rs)) 30 = Inl msg
        \<and> set_error w SetRotationOnError = None \<longrightarrow>
          handler w st = (st\<lparr>rotation := Some (advance rs)\<rparr>,
             Returned (Error500 msg (city_name (fst (current rs))) (snd (current rs)))))
     \<and> ((\<exists>e. searchOpenStreetMap w (snd (current rs)) (fst (current rs)) 30 = Inl e)
          \<or> set_error w SetLeads \<noteq> None \<or> set_error w SetHistory \<noteq> None \<longrightarrow>
          history (fst (handler w st)) = history st)
     \<and> (searchOpenStreetMap w (snd (current rs)) (fst (current rs)) 30 = Inr businesses
        \<and> set_error w SetLeads = None \<and> set_error w SetHistory = None
        \<and> existing = read_slot (get_fails w AllLeads) (all_leads st) []
        \<and> qual = qualifiedLeads w businesses \<longrightarrow>
          history (fst (handler w st)) = Some (take 100
            (\<lparr>h_timestamp = now w, h_city = city_name (fst (current rs)),
              h_category = snd (current rs),
              businessesFound = length businesses,
              leadsFound = length (newLeads existing qual),
              totalLeads = length (ingest existing qual)\<rparr>
             # read_slot (get_fails w History) (history st) []))
          \<and> (set_error w SetRotation = None \<longrightarrow>
                snd (handler w st)
                  = Returned (Ok200 (city_name (fst (current rs))) (snd (current rs))
                      (length (newLeads existing qual))
                      (length (ingest existing qual))))
          \<and> (set_error w SetRotation = Some m \<and> set_error w SetRotationOnError = None \<longrightarrow>
                snd (handler w st)
                  = Returned (Error500 m (city_name (fst (current rs))) (snd (current rs)))))"
proof (intro impI conjI)
  assume rs: "rs = read_slot (get_fails w Rotation) (rotation st) default_state"
  {
    assume a: "searchOpenStreetMap w (snd (current rs)) (fst (current rs)) 30 = Inl msg
        \<and> set_error w SetRotationOnError = None"
    show "handler w st = (st\<lparr>rotation := Some (advance rs)\<rparr>,
             Returned (Error500 msg (city_name (fst (current rs))) (snd (current rs))))"
      using rs a by (intro handler_search_failure) blast+
  }
  {
    assume "(\<exists>e. searchOpenStreetMap w (snd (current rs)) (fst (current rs)) 30 = Inl e)
          \<or> set_error w SetLeads \<noteq> None \<or> set_error w SetHistory \<noteq> None"
    with rs show "history (fst (handler w st)) = history st"
      by (rule handler_history_unchanged)
  }
  {
    assume a: "searchOpenStreetMap w (snd (current rs)) (fst (current rs)) 30 = Inr businesses
        \<and> set_error w SetLeads = None \<and> set_error w SetHistory = None
        \<and> existing = read_slot (get_fails w AllLeads) (all_leads st) []
        \<and> qual = qualifiedLeads w businesses"
    have a1: "searchOpenStreetMap w (snd (current rs)) (fst (current rs)) 30 = Inr businesses"
      and a2: "set_error w SetLeads = None" and a3: "set_error w SetHistory = None"
      and a4: "existing = read_slot (get_fails w AllLeads) (all_leads st) []"
      and a5: "qual = qualifiedLeads w businesses"
      using a by blast+
    show "history (fst (handler w st)) = Some (take 100
            (\<lparr>h_timestamp = now w, h_city = city_name (fst (current rs)),
              h_category = snd (current rs),
              businessesFound = length businesses,
              leadsFound = length (newLeads existing qual),
              totalLeads = length (ingest existing qual)\<rparr>
             # read_slot (get_fails w History) (history st) []))"
      using rs a1 a2 a3 a4 a5 by (rule handler_history_recorded)
    {
      assume ok: "set_error w SetRotation = None"
      show "snd (handler w st)
                  = Returned (Ok200 (city_name (fst (current rs))) (snd (current rs))
                      (length (newLeads existing qual))
                      (length (ingest existing qual)))"
        using handler_success[OF rs a1 a2 a3 ok a4 a5] by simp
    }
    {
      assume r: "set_error w SetRotation = Some m \<and> set_error w SetRotationOnError = None"
      show "snd (handler w st)
                  = Returned (Error500 m (city_name (fst (current rs))) (snd (current rs)))"
        using rs a1 a2 a3 r by (intro handler_rotation_write_rejected) blast+
    }
  }
qed

theorem run_history_entry_witness:
  "\<lparr>cityIndex = 3, categoryIndex = 5, totalRuns = 47\<rparr>
      = read_slot (get_fails search_down Rotation) (rotation example_store) default_state
   \<and> searchOpenStreetMap search_down ''chiropractor'' houston 30
       = Inl ''Overpass API error: 504''
   \<and> set_error search_down SetRotationOnError = None
   \<and> handler search_down example_store
       = (example_store\<lparr>rotation := Some \<lparr>cityIndex = 3, categoryIndex = 6, totalRuns = 48\<rparr>\<rparr>,
          Returned (Error500 ''Overpass API error: 504'' ''Houston'' ''chiropractor''))
   \<and> history (fst (handler search_down example_store)) = Some [example_entry]
   \<and> searchOpenStreetMap search_up ''chiropractor'' houston 30
       = Inr (filter_and_deduplicate 30 [to_business (now search_up) ''chiropractor'' houston example_element])
   \<and> set_error search_up SetLeads = None \<and> set_error search_up SetHistory = None
   \<and> set_error search_up SetRotation = None
   \<and> history (fst (handler search_up example_store))
       = Some [\<lparr>h_timestamp = ''2025-12-09T10:00:00.000Z'', h_city = ''Houston'',
                 h_category = ''chiropractor'', businessesFound = 1, leadsFound = 1,
                 totalLeads = 2\<rparr>, example_entry]
   \<and> snd (handler search_up example_store) = Returned (Ok200 ''Houston'' ''chiropractor'' 1 2)
   \<and> set_error rotation_write_down SetLeads = None
   \<and> set_error rotation_write_down SetHistory = None
   \<and> set_error rotation_write_down SetRotation = Some ''blob store unavailable''
   \<and> set_error rotation_write_down SetRotationOnError = None
   \<and> history (fst (handler rotation_write_down example_store))
       = Some [\<lparr>h_timestamp = ''2025-12-09T10:00:00.000Z'', h_city = ''Houston'',
                 h_category = ''chiropractor'', businessesFound = 1, leadsFound = 1,
                 totalLeads = 2\<rparr>, example_entry]
   \<and> snd (handler rotation_write_down example_store)
       = Returned (Error500 ''blob store unavailable'' ''Houston'' ''chiropractor'')"
proof -
  let ?rs = "\<lparr>cityIndex = 3, categoryIndex = 5, totalRuns = 47\<rparr>"
  let ?c = "houston"
  let ?old = "[example_lead ''Smile Dental'' ''Houston'']"
  let ?bs = "\<lambda>w. filter_and_deduplicate 30 [to_business (now w) ''chiropractor'' ?c example_element]"
  have r1: "?rs = read_slot (get_fails search_down Rotation) (rotation example_store) default_state"
    and r2: "?rs = read_slot (get_fails search_up Rotation) (rotation example_store) default_state"
    and r3: "?rs = read_slot (get_fails rotation_write_down Rotation) (rotation example_store)
        default_state"
    by (simp_all add: read_slot_def search_down_sel search_up_sel more_worlds_sel
        example_store_sel)
  have cur: "snd (current ?rs) = ''chiropractor''" "fst (current ?rs) = ?c"
    "city_name (fst (current ?rs)) = ''Houston''"
    by (simp_all add: current_houston)
  have s1: "searchOpenStreetMap search_down (snd (current ?rs)) (fst (current ?rs)) 30
      = Inl ''Overpass API error: 504''"
    by (simp add: search_down_fails digits_504)
  have s2: "searchOpenStreetMap search_up (snd (current ?rs)) (fst (current ?rs)) 30
      = Inr (?bs search_up)"
    by (simp add: search_up_succeeds cur)
  have s3: "searchOpenStreetMap rotation_write_down (snd (current ?rs)) (fst (current ?rs)) 30
      = Inr (?bs rotation_write_down)"
    by (simp add: more_worlds_search cur)
  have w1: "set_error search_down SetRotationOnError = None"
    and w2: "set_error search_up SetLeads = None" "set_error search_up SetHistory = None"
      "set_error search_up SetRotation = None"
    and w3: "set_error rotation_write_down SetLeads = None"
      "set_error rotation_write_down SetHistory = None"
      "set_error rotation_write_down SetRotation = Some ''blob store unavailable''"
      "set_error rotation_write_down SetRotationOnError = None"
    by (simp_all add: search_down_sel search_up_sel more_worlds_sel)
  have e2: "?old = read_slot (get_fails search_up AllLeads) (all_leads example_store) []"
    and e3: "?old = read_slot (get_fails rotation_write_down AllLeads) (all_leads example_store) []"
    by (simp_all add: read_slot_def search_up_sel more_worlds_sel example_store_sel)
  have h2: "read_slot (get_fails search_up History) (history example_store) [] = [example_entry]"
    and h3: "read_slot (get_fails rotation_write_down History) (history example_store) []
      = [example_entry]"
    by (simp_all add: read_slot_def search_up_sel more_worlds_sel example_store_sel)
  note t1 = run_history_entry[where rs = "?rs" and w = search_down and st = example_store
      and msg = "''Overpass API error: 504''"]
  note t2 = run_history_entry[where rs = "?rs" and w = search_up and st = example_store
      and businesses = "?bs search_up" and existing = "?old"
      and qual = "qualifiedLeads search_up (?bs search_up)"]
  note t3 = run_history_entry[where rs = "?rs" and w = rotation_write_down and st = example_store
      and businesses = "?bs rotation_write_down" and existing = "?old"
      and qual = "qualifiedLeads rotation_write_down (?bs rotation_write_down)"
      and m = "''blob store unavailable''"]
  have f1: "handler search_down example_store
      = (example_store\<lparr>rotation := Some (advance ?rs)\<rparr>,
          Returned (Error500 ''Overpass API error: 504'' (city_name (fst (current ?rs)))
            (snd (current ?rs))))"
    using t1 r1 s1 w1 by blast
  have f2: "history (fst (handler search_down example_store)) = history example_store"
    using t1 r1 s1 by blast
  have g1: "history (fst (handler search_up example_store)) = Some (take 100
         (\<lparr>h_timestamp = now search_up, h_city = city_name (fst (current ?rs)),
           h_category = snd (current ?rs),
           businessesFound = length (?bs search_up),
           leadsFound = length (newLeads ?old (qualifiedLeads search_up (?bs search_up))),
           totalLeads = length (ingest ?old (qualifiedLeads search_up (?bs search_up)))\<rparr>
          # read_slot (get_fails search_up History) (history example_store) []))"
    using t2 r2 s2 w2 e2 by blast
  have g2: "snd (handler search_up example_store)
      = Returned (Ok200 (city_name (fst (current ?rs))) (snd (current ?rs))
          (length (newLeads ?old (qualifiedLeads search_up (?bs search_up))))
          (length (ingest ?old (qualifiedLeads search_up (?bs search_up)))))"
    using t2 r2 s2 w2 e2 by blast
  have k1: "history (fst (handler rotation_write_down example_store)) = Some (take 100
         (\<lparr>h_timestamp = now rotation_write_down, h_city = city_name (fst (current ?rs)),
           h_category = snd (current ?rs),
           businessesFound = length (?bs rotation_write_down),
           leadsFound = length (newLeads ?old
             (qualifiedLeads rotation_write_down (?bs rotation_write_down))),
           totalLeads = length (ingest ?old
             (qualifiedLeads rotation_write_down (?bs rotation_write_down)))\<rparr>
          # read_slot (get_fails rotation_write_down History) (history example_store) []))"
    using t3 r3 s3 w3 e3 by blast
  have k2: "snd (handler rotation_write_down example_store)
      = Returned (Error500 ''blob store unavailable'' (city_name (fst (current ?rs)))
          (snd (current ?rs)))"
    using t3 r3 s3 w3 e3 by blast
  have c1: "searchOpenStreetMap search_down ''chiropractor'' ?c 30 = Inl ''Overpass API error: 504''"
    by (simp add: search_down_fails digits_504)
  have c2: "searchOpenStreetMap search_up ''chiropractor'' ?c 30 = Inr (?bs search_up)"
    by (simp add: search_up_succeeds)
  have f1': "handler search_down example_store
       = (example_store\<lparr>rotation := Some \<lparr>cityIndex = 3, categoryIndex = 6, totalRuns = 48\<rparr>\<rparr>,
          Returned (Error500 ''Overpass API error: 504'' ''Houston'' ''chiropractor''))"
    using f1 by (simp add: cur advance_examples current_houston)
  have f2': "history (fst (handler search_down example_store)) = Some [example_entry]"
    using f2 by (simp add: example_store_sel)
  have g1': "history (fst (handler search_up example_store))
       = Some [\<lparr>h_timestamp = ''2025-12-09T10:00:00.000Z'', h_city = ''Houston'',
                 h_category = ''chiropractor'', businessesFound = 1, leadsFound = 1,
                 totalLeads = 2\<rparr>, example_entry]"
    unfolding g1 h2 cur example_search_results example_ingest
    by (simp add: worlds_now current_houston)
  have g2': "snd (handler search_up example_store)
      = Returned (Ok200 ''Houston'' ''chiropractor'' 1 2)"
    unfolding g2 cur example_search_results example_ingest by (simp add: current_houston)
  have k1': "history (fst (handler rotation_write_down example_store))
       = Some [\<lparr>h_timestamp = ''2025-12-09T10:00:00.000Z'', h_city = ''Houston'',
                 h_category = ''chiropractor'', businessesFound = 1, leadsFound = 1,
                 totalLeads = 2\<rparr>, example_entry]"
    unfolding k1 h3 cur example_search_results example_ingest
    by (simp add: worlds_now current_houston)
  have k2': "snd (handler rotation_write_down example_store)
       = Returned (Error500 ''blob store unavailable'' ''Houston'' ''chiropractor'')"
    using k2 by (simp add: cur current_houston)
  show ?thesis
    using r1 c1 w1 f1' f2' c2 w2 g1' g2' w3 k1' k2' by blast
qed

section \<open>Properties of the lead store\<close>



lemma lead_key_eq_iff:
  "(lead_key a = lead_key b \<and> toLowerCase (name a) = toLowerCase (name b))
     = (toLowerCase (name a) = toLowerCase (name b)
        \<and> toLowerCase (scrapedCity a) = toLowerCase (scrapedCity b))"
  "(lead_key a = lead_key b \<and> toLowerCase (scrapedCity a) = toLowerCase (scrapedCity b))
     = (toLowerCase (name a) = toLowerCase (name b)
        \<and> toLowerCase (scrapedCity a) = toLowerCase (scrapedCity b))"
  by (auto simp: lead_key_def)








section \<open>Properties of the search post-processing\<close>

lemma filter_seen_eq:
  "filter_seen seen bs =
     dedup_first (filter (\<lambda>b. name b \<noteq> ''Unknown Business'' \<and> website b \<noteq> []
                              \<and> toLowerCase (name b) \<notin> seen) bs)"
proof (induction bs arbitrary: seen)
  case Nil
  then show ?case by simp
next
  case (Cons b bs)
  show ?case
    by (auto simp: Cons.IH Let_def intro!: arg_cong[where f = dedup_first] filter_cong)
qed

lemma filter_seen_cli_eq:
  "filter_seen_cli seen bs =
     dedup_first (filter (\<lambda>b. name b \<noteq> ''Unknown Business''
                              \<and> toLowerCase (name b) \<notin> seen) bs)"
proof (induction bs arbitrary: seen)
  case Nil
  then show ?case by simp
next
  case (Cons b bs)
  show ?case
    by (auto simp: Cons.IH Let_def intro!: arg_cong[where f = dedup_first] filter_cong)
qed

text \<open>
  C6, as stated, fails on the code, for both searches. With the limit 1 and three records,
  "Smile" without a website, "SMILE" with one and "Bright" with one: the scheduled search
  drops the record without a website before it looks at names and returns "SMILE"; the
  command-line search does not truncate and returns "Smile" and "Bright"; the stated
  post-processing returns "Smile".
\<close>

lemma postprocessing_example:
  "filter_and_deduplicate 1
     [example_business ''Smile'' [] ''Austin'',
      example_business ''SMILE'' ''smile.example'' ''Austin'',
      example_business ''Bright'' ''bright.example'' ''Austin'']
     = [example_business ''SMILE'' ''smile.example'' ''Austin'']"
  "filter_and_deduplicate_cli
     [example_business ''Smile'' [] ''Austin'',
      example_business ''SMILE'' ''smile.example'' ''Austin'',
      example_business ''Bright'' ''bright.example'' ''Austin'']
     = [example_business ''Smile'' [] ''Austin'',
        example_business ''Bright'' ''bright.example'' ''Austin'']"
  "spec_postprocess 1
     [example_business ''Smile'' [] ''Austin'',
      example_business ''SMILE'' ''smile.example'' ''Austin'',
      example_business ''Bright'' ''bright.example'' ''Austin'']
     = [example_business ''Smile'' [] ''Austin'']"
  by code_simp+

theorem locator_postprocessing_differs:
  "filter_and_deduplicate 1
     [example_business ''Smile'' [] ''Austin'',
      example_business ''SMILE'' ''smile.example'' ''Austin'',
      example_business ''Bright'' ''bright.example'' ''Austin'']
     \<noteq> spec_postprocess 1
     [example_business ''Smile'' [] ''Austin'',
      example_business ''SMILE'' ''smile.example'' ''Austin'',
      example_business ''Bright'' ''bright.example'' ''Austin'']
   \<and> filter_and_deduplicate_cli
     [example_business ''Smile'' [] ''Austin'',
      example_business ''SMILE'' ''smile.example'' ''Austin'',
      example_business ''Bright'' ''bright.example'' ''Austin'']
     \<noteq> spec_postprocess 1
     [example_business ''Smile'' [] ''Austin'',
      example_business ''SMILE'' ''smile.example'' ''Austin'',
      example_business ''Bright'' ''bright.example'' ''Austin'']
   \<and> filter_and_deduplicate 1
     [example_business ''Smile'' [] ''Austin'',
      example_business ''SMILE'' ''smile.example'' ''Austin'',
      example_business ''Bright'' ''bright.example'' ''Austin'']
     = [example_business ''SMILE'' ''smile.example'' ''Austin'']
   \<and> filter_and_deduplicate_cli
     [example_business ''Smile'' [] ''Austin'',
      example_business ''SMILE'' ''smile.example'' ''Austin'',
      example_business ''Bright'' ''bright.example'' ''Austin'']
     = [example_business ''Smile'' [] ''Austin'',
        example_business ''Bright'' ''bright.example'' ''Austin'']
   \<and> spec_postprocess 1
     [example_business ''Smile'' [] ''Austin'',
      example_business ''SMILE'' ''smile.example'' ''Austin'',
      example_business ''Bright'' ''bright.example'' ''Austin'']
     = [example_business ''Smile'' [] ''Austin'']"
proof -
  have 1: "[example_business ''SMILE'' ''smile.example'' ''Austin'']
      \<noteq> [example_business ''Smile'' [] ''Austin'']"
    by (simp add: example_business_def)
  have 2: "[example_business ''Smile'' [] ''Austin'',
        example_business ''Bright'' ''bright.example'' ''Austin'']
      \<noteq> [example_business ''Smile'' [] ''Austin'']"
    by simp
  show ?thesis
    unfolding postprocessing_example using 1 2 by blast
qed

text \<open>
  C6, amended. The scheduled search drops the records with no name and the records with no
  website, keeps the first of the remaining records of every lower-cased name, and truncates
  to the limit. The command-line search drops the records with no name and keeps the first
  record of every lower-cased name; it does not truncate. Its caller truncates to the limit,
  after filtering by website presence in filter mode; without filter mode the search and
  its caller together are the stated post-processing.
\<close>

theorem locator_postprocessing:
  "filter_and_deduplicate limit bs
     = take limit (dedup_first
         (filter (\<lambda>b. name b \<noteq> ''Unknown Business'' \<and> website b \<noteq> []) bs))
   \<and> filter_and_deduplicate_cli bs
     = dedup_first (filter (\<lambda>b. name b \<noteq> ''Unknown Business'') bs)
   \<and> businessesToCheck True True limit (filter_and_deduplicate_cli bs)
     = take limit (filter (\<lambda>b. website b \<noteq> [])
         (dedup_first (filter (\<lambda>b. name b \<noteq> ''Unknown Business'') bs)))
   \<and> businessesToCheck checkTracking False limit (filter_and_deduplicate_cli bs)
     = spec_postprocess limit bs"
  by (simp add: filter_and_deduplicate_def filter_and_deduplicate_cli_def filter_seen_eq
      filter_seen_cli_eq businessesToCheck_def spec_postprocess_def)

section \<open>Properties of the tracking detection\<close>

text \<open>\<open>startsWith\<close> and \<open>includes\<close> are the prefix and the contiguous-sublist relations.\<close>

lemma startsWith_prefix: "startsWith s p = prefix p s"
  by (induction s p rule: startsWith.induct) auto

lemma str_includes_sublist: "str_includes s p = sublist p s"
  by (induction s) (auto simp: startsWith_prefix sublist_Cons_right)

lemma some_included_iff: "some_included ps html = (\<exists>p \<in> set ps. sublist p html)"
  by (simp add: some_included_def list_ex_iff str_includes_sublist)

lemma digits_404: "digits 404 = ''404''" by code_simp

lemma example_pages:
  "fetch search_up url = Response 200 ''<script src=https://www.GoogleTagManager.com/gtm.js>''"
  "fetch search_down url = Rejected ''Request timeout''"
  "fetch_404 url = Response 404 ''<script>gtag(1);fbq(2)</script>''"
  by (simp_all add: search_up_def search_down_def fetch_404_def)

lemma example_page_patterns:
  "list_ex (\<lambda>p. sublist p (toLowerCase ''<script src=https://www.GoogleTagManager.com/gtm.js>'')) gaPatterns"
  "\<not> list_ex (\<lambda>p. sublist p (toLowerCase ''<script src=https://www.GoogleTagManager.com/gtm.js>'')) fbPatterns"
  by code_simp+

text \<open>
  C4, as stated, fails on the code: the scheduled function's detector returns the two false
  flags with no error marker, for a missing website, for a rejected request and for a
  non-200 answer alike.
\<close>

theorem scheduled_detect_without_error_marker:
  "checkWebsiteForTracking (fetch search_down) []
     = \<lparr>trk_hasGA = False, trk_hasFB = False, trk_error = None\<rparr>
   \<and> checkWebsiteForTracking (fetch search_down) ''smile.example''
     = \<lparr>trk_hasGA = False, trk_hasFB = False, trk_error = None\<rparr>
   \<and> checkWebsiteForTracking fetch_404 ''smile.example''
     = \<lparr>trk_hasGA = False, trk_hasFB = False, trk_error = None\<rparr>"
  by (simp add: checkWebsiteForTracking_def search_down_def fetch_404_def)

text \<open>
  C4, amended. Both detectors are defined for every URL and every outcome of the request
  (no URL, a rejected request, an answer with a status and a body: every case returns a
  record), and they return the same two flags. On every failure the flags are false. The
  command-line detector adds an error marker to every failure: \<open>No URL\<close>, the message of the
  rejection, or \<open>HTTP\<close> and the status. The scheduled function's detector returns no error
  marker in any case.
\<close>

theorem detect_never_raises:
  "(url = [] \<or> (\<exists>msg. page (normalize_url url) = Rejected msg)
      \<or> (\<exists>status body. page (normalize_url url) = Response status body))
   \<and> (url = [] \<longrightarrow>
        checkWebsiteForTracking_cli page url
          = \<lparr>trk_hasGA = False, trk_hasFB = False, trk_error = Some ''No URL''\<rparr>
        \<and> checkWebsiteForTracking page url
          = \<lparr>trk_hasGA = False, trk_hasFB = False, trk_error = None\<rparr>)
   \<and> (url \<noteq> [] \<and> page (normalize_url url) = Rejected msg \<longrightarrow>
        checkWebsiteForTracking_cli page url
          = \<lparr>trk_hasGA = False, trk_hasFB = False, trk_error = Some msg\<rparr>
        \<and> checkWebsiteForTracking page url
          = \<lparr>trk_hasGA = False, trk_hasFB = False, trk_error = None\<rparr>)
   \<and> (url \<noteq> [] \<and> page (normalize_url url) = Response status body \<and> status \<noteq> 200 \<longrightarrow>
        checkWebsiteForTracking_cli page url
          = \<lparr>trk_hasGA = False, trk_hasFB = False, trk_error = Some (''HTTP '' @ digits status)\<rparr>
        \<and> checkWebsiteForTracking page url
          = \<lparr>trk_hasGA = False, trk_hasFB = False, trk_error = None\<rparr>)
   \<and> (url \<noteq> [] \<and> page (normalize_url url) = Response 200 body \<longrightarrow>
        checkWebsiteForTracking_cli page url = checkWebsiteForTracking page url)
   \<and> trk_error (checkWebsiteForTracking page url) = None
   \<and> trk_hasGA (checkWebsiteForTracking page url) = trk_hasGA (checkWebsiteForTracking_cli page url)
   \<and> trk_hasFB (checkWebsiteForTracking page url) = trk_hasFB (checkWebsiteForTracking_cli page url)"
proof -
  have ex: "url = [] \<or> (\<exists>msg. page (normalize_url url) = Rejected msg)
      \<or> (\<exists>status body. page (normalize_url url) = Response status body)"
    by (cases "page (normalize_url url)") auto
  have rest: "trk_error (checkWebsiteForTracking page url) = None
   \<and> trk_hasGA (checkWebsiteForTracking page url) = trk_hasGA (checkWebsiteForTracking_cli page url)
   \<and> trk_hasFB (checkWebsiteForTracking page url) = trk_hasFB (checkWebsiteForTracking_cli page url)"
    by (cases "page (normalize_url url)")
       (simp_all add: checkWebsiteForTracking_def checkWebsiteForTracking_cli_def Let_def)
  show ?thesis
    using ex rest
    by (simp add: checkWebsiteForTracking_def checkWebsiteForTracking_cli_def Let_def)
qed

theorem detect_never_raises_witness:
  "checkWebsiteForTracking_cli (fetch search_down) []
     = \<lparr>trk_hasGA = False, trk_hasFB = False, trk_error = Some ''No URL''\<rparr>
   \<and> ''smile.example'' \<noteq> []
   \<and> fetch search_down (normalize_url ''smile.example'') = Rejected ''Request timeout''
   \<and> checkWebsiteForTracking_cli (fetch search_down) ''smile.example''
     = \<lparr>trk_hasGA = False, trk_hasFB = False, trk_error = Some ''Request timeout''\<rparr>
   \<and> checkWebsiteForTracking (fetch search_down) ''smile.example''
     = \<lparr>trk_hasGA = False, trk_hasFB = False, trk_error = None\<rparr>
   \<and> fetch_404 (normalize_url ''smile.example'')
     = Response 404 ''<script>gtag(1);fbq(2)</script>''
   \<and> (404 :: nat) \<noteq> 200
   \<and> checkWebsiteForTracking_cli fetch_404 ''smile.example''
     = \<lparr>trk_hasGA = False, trk_hasFB = False, trk_error = Some ''HTTP 404''\<rparr>
   \<and> fetch search_up (normalize_url ''smile.example'')
       = Response 200 ''<script src=https://www.GoogleTagManager.com/gtm.js>''
   \<and> checkWebsiteForTracking_cli (fetch search_up) ''smile.example''
     = checkWebsiteForTracking (fetch search_up) ''smile.example''"
proof -
  have u: "''smile.example'' \<noteq> []" by simp
  have p1: "fetch search_down (normalize_url ''smile.example'') = Rejected ''Request timeout''"
    and p2: "fetch_404 (normalize_url ''smile.example'')
      = Response 404 ''<script>gtag(1);fbq(2)</script>''"
    and p3: "fetch search_up (normalize_url ''smile.example'')
       = Response 200 ''<script src=https://www.GoogleTagManager.com/gtm.js>''"
    by (simp_all add: example_pages)
  have n: "(404 :: nat) \<noteq> 200" by simp
  have d: "''HTTP '' @ digits 404 = ''HTTP 404''" by (simp add: digits_404)
  note t0 = detect_never_raises[where url = "[]" and page = "fetch search_down"]
  note t1 = detect_never_raises[where url = "''smile.example''" and page = "fetch search_down"
      and msg = "''Request timeout''"]
  note t2 = detect_never_raises[where url = "''smile.example''" and page = fetch_404
      and status = 404 and body = "''<script>gtag(1);fbq(2)</script>''"]
  note t3 = detect_never_raises[where url = "''smile.example''" and page = "fetch search_up"
      and body = "''<script src=https://www.GoogleTagManager.com/gtm.js>''"]
  have c0: "checkWebsiteForTracking_cli (fetch search_down) []
     = \<lparr>trk_hasGA = False, trk_hasFB = False, trk_error = Some ''No URL''\<rparr>"
    using t0 by blast
  have c1: "checkWebsiteForTracking_cli (fetch search_down) ''smile.example''
     = \<lparr>trk_hasGA = False, trk_hasFB = False, trk_error = Some ''Request timeout''\<rparr>
   \<and> checkWebsiteForTracking (fetch search_down) ''smile.example''
     = \<lparr>trk_hasGA = False, trk_hasFB = False, trk_error = None\<rparr>"
    using t1 u p1 by blast
  have c2: "checkWebsiteForTracking_cli fetch_404 ''smile.example''
     = \<lparr>trk_hasGA = False, trk_hasFB = False, trk_error = Some ''HTTP 404''\<rparr>"
    using t2 u p2 n unfolding d[symmetric] by blast
  have c3: "checkWebsiteForTracking_cli (fetch search_up) ''smile.example''
     = checkWebsiteForTracking (fetch search_up) ''smile.example''"
    using t3 u p3 by blast
  show ?thesis using c0 c1 c2 c3 u p1 p2 p3 n by blast
qed

text \<open>
  C5. On an answer with status 200 each detector sets \<open>hasGA\<close> exactly when some pattern of
  the analytics set occurs in the lower-cased body, and \<open>hasFB\<close> exactly when some pattern of
  the pixel set does. On any other status both flags are false, and the result does not
  depend on the body: it is the same for every other body.
\<close>

theorem detect_flags_by_patterns:
  "(url \<noteq> [] \<and> page (normalize_url url) = Response 200 body \<longrightarrow>
      trk_hasGA (checkWebsiteForTracking page url)
        = (\<exists>p \<in> set gaPatterns. sublist p (toLowerCase body))
      \<and> trk_hasFB (checkWebsiteForTracking page url)
        = (\<exists>p \<in> set fbPatterns. sublist p (toLowerCase body))
      \<and> trk_hasGA (checkWebsiteForTracking_cli page url)
        = (\<exists>p \<in> set gaPatterns. sublist p (toLowerCase body))
      \<and> trk_hasFB (checkWebsiteForTracking_cli page url)
        = (\<exists>p \<in> set fbPatterns. sublist p (toLowerCase body)))
   \<and> (url \<noteq> [] \<and> page (normalize_url url) = Response status body \<and> status \<noteq> 200 \<longrightarrow>
      \<not> trk_hasGA (checkWebsiteForTracking page url)
      \<and> \<not> trk_hasFB (checkWebsiteForTracking page url)
      \<and> \<not> trk_hasGA (checkWebsiteForTracking_cli page url)
      \<and> \<not> trk_hasFB (checkWebsiteForTracking_cli page url)
      \<and> checkWebsiteForTracking (page(normalize_url url := Response status body')) url
          = checkWebsiteForTracking page url
      \<and> checkWebsiteForTracking_cli (page(normalize_url url := Response status body')) url
          = checkWebsiteForTracking_cli page url)"
  by (simp add: checkWebsiteForTracking_def checkWebsiteForTracking_cli_def some_included_iff Let_def)

theorem detect_flags_by_patterns_witness:
  "''bright.example'' \<noteq> []
   \<and> fetch search_up (normalize_url ''bright.example'')
       = Response 200 ''<script src=https://www.GoogleTagManager.com/gtm.js>''
   \<and> trk_hasGA (checkWebsiteForTracking (fetch search_up) ''bright.example'')
   \<and> \<not> trk_hasFB (checkWebsiteForTracking (fetch search_up) ''bright.example'')
   \<and> trk_hasGA (checkWebsiteForTracking_cli (fetch search_up) ''bright.example'')
   \<and> \<not> trk_hasFB (checkWebsiteForTracking_cli (fetch search_up) ''bright.example'')
   \<and> fetch_404 (normalize_url ''bright.example'')
       = Response 404 ''<script>gtag(1);fbq(2)</script>''
   \<and> (404 :: nat) \<noteq> 200
   \<and> \<not> trk_hasGA (checkWebsiteForTracking fetch_404 ''bright.example'')
   \<and> \<not> trk_hasFB (checkWebsiteForTracking fetch_404 ''bright.example'')
   \<and> \<not> trk_hasGA (checkWebsiteForTracking_cli fetch_404 ''bright.example'')
   \<and> \<not> trk_hasFB (checkWebsiteForTracking_cli fetch_404 ''bright.example'')"
proof -
  let ?body = "''<script src=https://www.GoogleTagManager.com/gtm.js>''"
  have u: "''bright.example'' \<noteq> []" by simp
  have p1: "fetch search_up (normalize_url ''bright.example'') = Response 200 ?body"
    and p2: "fetch_404 (normalize_url ''bright.example'')
      = Response 404 ''<script>gtag(1);fbq(2)</script>''"
    by (simp_all add: example_pages)
  have n: "(404 :: nat) \<noteq> 200" by simp
  have ga: "\<exists>p \<in> set gaPatterns. sublist p (toLowerCase ?body)"
    using example_page_patterns(1) by (simp add: list_ex_iff)
  have fb: "\<not> (\<exists>p \<in> set fbPatterns. sublist p (toLowerCase ?body))"
    using example_page_patterns(2) by (simp add: list_ex_iff)
  show ?thesis
    using detect_flags_by_patterns[where url = "''bright.example''" and page = "fetch search_up"
        and body = ?body and status = 404]
      detect_flags_by_patterns[where url = "''bright.example''" and page = fetch_404
        and body = "''<script>gtag(1);fbq(2)</script>''" and status = 404]
      u p1 p2 n ga fb
    by blast
qed

section \<open>Properties of the location resolution\<close>

lemma local_lookup_first:
  assumes "i < length tbl"
    and "str_includes l (fst (tbl ! i))"
    and "\<forall>j<i. \<not> str_includes l (fst (tbl ! j))"
  shows "local_lookup l tbl
       = Some \<lparr>lat = uc_lat (snd (tbl ! i)), lon = uc_lon (snd (tbl ! i)),
               displayName = uc_name (snd (tbl ! i))\<rparr>"
  using assms
proof (induction tbl arbitrary: i)
  case Nil
  then show ?case by simp
next
  case (Cons e tbl)
  obtain k c where e: "e = (k, c)" by (cases e)
  show ?case
  proof (cases i)
    case 0
    then show ?thesis using Cons.prems e by simp
  next
    case (Suc n)
    have "\<not> str_includes l k" using Cons.prems(3) Suc e by auto
    moreover have "local_lookup l tbl
       = Some \<lparr>lat = uc_lat (snd (tbl ! n)), lon = uc_lon (snd (tbl ! n)),
               displayName = uc_name (snd (tbl ! n))\<rparr>"
    proof (rule Cons.IH)
      show "n < length tbl" using Cons.prems(1) Suc by simp
      show "str_includes l (fst (tbl ! n))" using Cons.prems(2) Suc by simp
      show "\<forall>j<n. \<not> str_includes l (fst (tbl ! j))"
      proof (intro allI impI)
        fix j assume "j < n"
        then have "Suc j < i" using Suc by simp
        then have "\<not> str_includes l (fst ((e # tbl) ! Suc j))" using Cons.prems(3) by blast
        then show "\<not> str_includes l (fst (tbl ! j))" by simp
      qed
    qed
    ultimately show ?thesis using Suc e by simp
  qed
qed

lemma local_lookup_miss:
  "(\<forall>k \<in> set (map fst tbl). \<not> str_includes l k) \<Longrightarrow> local_lookup l tbl = None"
  by (induction tbl) auto

lemma geocode_hit:
  assumes "i < length US_CITIES"
    and "sublist (fst (US_CITIES ! i)) (toLowerCase location)"
    and "\<forall>j<i. \<not> sublist (fst (US_CITIES ! j)) (toLowerCase location)"
  shows "geocodeLocation nominatim location
       = (Inr \<lparr>lat = uc_lat (snd (US_CITIES ! i)), lon = uc_lon (snd (US_CITIES ! i)),
                displayName = uc_name (snd (US_CITIES ! i))\<rparr>, [])"
  using local_lookup_first[of i US_CITIES "toLowerCase location"] assms
  by (simp add: geocodeLocation_def str_includes_sublist)

lemma geocode_miss:
  assumes "\<forall>k \<in> set (map fst US_CITIES). \<not> sublist k (toLowerCase location)"
  shows "geocodeLocation nominatim location =
     (case nominatim location of
        Rejected msg \<Rightarrow> (Inl msg, [location])
      | Response status body \<Rightarrow>
          if status = 403 \<or> status = 429
          then (Inl (''Nominatim rate limited. Try one of these cities: '' @ suggested), [location])
          else if status \<noteq> 200
          then (Inl (''Geocoding failed with status '' @ digits status), [location])
          else (case body of
                  Inl msg \<Rightarrow> (Inl msg, [location])
                | Inr [] \<Rightarrow>
                    (Inl (''Could not find location: '' @ location @ ''. Try one of: ''
                          @ suggested), [location])
                | Inr (result # others) \<Rightarrow>
                    (Inr \<lparr>lat = cand_lat result, lon = cand_lon result,
                          displayName = display_name result\<rparr>, [location])))"
  using local_lookup_miss[of US_CITIES "toLowerCase location"] assms
  by (simp add: geocodeLocation_def str_includes_sublist)

lemma suggested_text:
  "suggested = ''los angeles, new york, chicago, houston, phoenix, philadelphia, san antonio, san diego, dallas, san jose''"
  by code_simp

lemma nowhere_miss:
  "list_all (\<lambda>k. \<not> sublist k (toLowerCase ''Nowhereville, Atlantis'')) (map fst US_CITIES)"
  by code_simp

lemma digits_500: "digits 500 = ''500''" by code_simp

lemma la_hit: "sublist (fst (US_CITIES ! 0)) (toLowerCase ''Downtown Los Angeles'')"
  by code_simp

lemma sd_hit: "sublist (fst (US_CITIES ! 7)) (toLowerCase ''San Jose or San Diego'')"
  "list_all (\<lambda>k. \<not> sublist k (toLowerCase ''San Jose or San Diego'')) (take 7 (map fst US_CITIES))"
  "sublist (fst (US_CITIES ! 9)) (toLowerCase ''San Jose or San Diego'')"
  "US_CITIES ! 7 = (''san diego'', \<lparr>uc_lat = 32.7157, uc_lon = -117.1611, uc_name = ''San Diego, CA''\<rparr>)"
  by code_simp+

lemma length_US_CITIES: "length US_CITIES = 114"
  by (simp add: US_CITIES_def)

lemma nominatim_examples:
  "nominatim_500 q = Response 500
        (Inr [\<lparr>cand_lat = 10, cand_lon = 20, display_name = ''Nowhereville, Atlantis''\<rparr>])"
  "nominatim_found q = Response 200
        (Inr [\<lparr>cand_lat = 10, cand_lon = 20, display_name = ''Nowhereville, Atlantis''\<rparr>,
              \<lparr>cand_lat = 30, cand_lon = 40, display_name = ''Nowhereville, Lemuria''\<rparr>])"
  by (simp_all add: nominatim_500_def nominatim_found_def)

lemma nowhere_miss': "\<forall>k \<in> set (map fst US_CITIES). \<not> sublist k (toLowerCase ''Nowhereville, Atlantis'')"
  using nowhere_miss unfolding list_all_iff .

text \<open>
  C8, as stated, fails on the code: on a table miss, an answer that is neither a rate-limit
  status nor status 200 makes \<open>geocodeLocation\<close> fail with the status, whatever the body
  holds. With status 500 and one candidate in the body the result is the error, not the
  candidate.
\<close>

theorem geocode_other_status_fails:
  "nominatim_500 ''Nowhereville, Atlantis''
     = Response 500
         (Inr [\<lparr>cand_lat = 10, cand_lon = 20, display_name = ''Nowhereville, Atlantis''\<rparr>])
   \<and> geocodeLocation nominatim_500 ''Nowhereville, Atlantis''
     = (Inl ''Geocoding failed with status 500'', [''Nowhereville, Atlantis''])"
  using geocode_miss[OF nowhere_miss', of nominatim_500]
  by (simp add: nominatim_examples digits_500)

text \<open>
  C8, amended. \<open>geocodeLocation\<close> lower-cases the place text and returns the coordinates
  of the first table entry whose key occurs in it, sending no request. On a table miss it
  sends exactly one request, with the raw text, and does not retry: a rejected request or
  an unparsable body fails with that error; status 403 or 429 fails with the rate-limit
  message that lists the first ten table cities; any other status but 200 fails with the
  status; status 200 with an empty list fails with the could-not-find message; status 200
  with a non-empty list returns the first candidate.
\<close>

theorem geocode_resolution:
  "(i < length US_CITIES
      \<and> sublist (fst (US_CITIES ! i)) (toLowerCase location)
      \<and> (\<forall>j<i. \<not> sublist (fst (US_CITIES ! j)) (toLowerCase location)) \<longrightarrow>
        geocodeLocation nominatim location
          = (Inr \<lparr>lat = uc_lat (snd (US_CITIES ! i)), lon = uc_lon (snd (US_CITIES ! i)),
                   displayName = uc_name (snd (US_CITIES ! i))\<rparr>, []))
   \<and> ((\<forall>k \<in> set (map fst US_CITIES). \<not> sublist k (toLowerCase location)) \<longrightarrow>
        snd (geocodeLocation nominatim location) = [location]
        \<and> (nominatim location = Rejected msg \<longrightarrow>
             fst (geocodeLocation nominatim location) = Inl msg)
        \<and> (nominatim location = Response status body \<and> (status = 403 \<or> status = 429) \<longrightarrow>
             fst (geocodeLocation nominatim location)
               = Inl (''Nominatim rate limited. Try one of these cities: ''
                      @ ''los angeles, new york, chicago, houston, phoenix, ''
                      @ ''philadelphia, san antonio, san diego, dallas, san jose''))
        \<and> (nominatim location = Response status body
             \<and> status \<noteq> 403 \<and> status \<noteq> 429 \<and> status \<noteq> 200 \<longrightarrow>
             fst (geocodeLocation nominatim location)
               = Inl (''Geocoding failed with status '' @ digits status))
        \<and> (nominatim location = Response 200 (Inl msg) \<longrightarrow>
             fst (geocodeLocation nominatim location) = Inl msg)
        \<and> (nominatim location = Response 200 (Inr []) \<longrightarrow>
             fst (geocodeLocation nominatim location)
               = Inl (''Could not find location: '' @ location @ ''. Try one of: ''
                      @ ''los angeles, new york, chicago, houston, phoenix, ''
                      @ ''philadelphia, san antonio, san diego, dallas, san jose''))
        \<and> (nominatim location = Response 200 (Inr (result # others)) \<longrightarrow>
             fst (geocodeLocation nominatim location)
               = Inr \<lparr>lat = cand_lat result, lon = cand_lon result,
                      displayName = display_name result\<rparr>))"
proof (intro conjI impI)
  assume "i < length US_CITIES
      \<and> sublist (fst (US_CITIES ! i)) (toLowerCase location)
      \<and> (\<forall>j<i. \<not> sublist (fst (US_CITIES ! j)) (toLowerCase location))"
  then show "geocodeLocation nominatim location
          = (Inr \<lparr>lat = uc_lat (snd (US_CITIES ! i)), lon = uc_lon (snd (US_CITIES ! i)),
                   displayName = uc_name (snd (US_CITIES ! i))\<rparr>, [])"
    by (simp add: geocode_hit)
next
  assume m: "\<forall>k \<in> set (map fst US_CITIES). \<not> sublist k (toLowerCase location)"
  note g = geocode_miss[OF m, of nominatim]
  show "snd (geocodeLocation nominatim location) = [location]"
    by (simp add: g split: http.splits sum.splits list.splits)
  show "fst (geocodeLocation nominatim location) = Inl msg"
    if "nominatim location = Rejected msg"
    using that by (simp add: g)
  show "fst (geocodeLocation nominatim location)
               = Inl (''Nominatim rate limited. Try one of these cities: ''
                      @ ''los angeles, new york, chicago, houston, phoenix, ''
                      @ ''philadelphia, san antonio, san diego, dallas, san jose'')"
    if "nominatim location = Response status body \<and> (status = 403 \<or> status = 429)"
    using that by (auto simp add: g suggested_text)
  show "fst (geocodeLocation nominatim location)
               = Inl (''Geocoding failed with status '' @ digits status)"
    if "nominatim location = Response status body
             \<and> status \<noteq> 403 \<and> status \<noteq> 429 \<and> status \<noteq> 200"
    using that by (simp add: g)
  show "fst (geocodeLocation nominatim location) = Inl msg"
    if "nominatim location = Response 200 (Inl msg)"
    using that by (simp add: g)
  show "fst (geocodeLocation nominatim location)
               = Inl (''Could not find location: '' @ location @ ''. Try one of: ''
                      @ ''los angeles, new york, chicago, houston, phoenix, ''
                      @ ''philadelphia, san antonio, san diego, dallas, san jose'')"
    if "nominatim location = Response 200 (Inr [])"
    using that by (simp add: g suggested_text)
  show "fst (geocodeLocation nominatim location)
               = Inr \<lparr>lat = cand_lat result, lon = cand_lon result,
                      displayName = display_name result\<rparr>"
    if "nominatim location = Response 200 (Inr (result # others))"
    using that by (simp add: g)
qed

theorem geocode_resolution_witness:
  "(7 :: nat) < length US_CITIES
   \<and> sublist (fst (US_CITIES ! 7)) (toLowerCase ''San Jose or San Diego'')
   \<and> list_all (\<lambda>k. \<not> sublist k (toLowerCase ''San Jose or San Diego''))
        (take 7 (map fst US_CITIES))
   \<and> sublist (fst (US_CITIES ! 9)) (toLowerCase ''San Jose or San Diego'')
   \<and> geocodeLocation nominatim_500 ''San Jose or San Diego''
       = (Inr \<lparr>lat = 32.7157, lon = -117.1611, displayName = ''San Diego, CA''\<rparr>, [])
   \<and> list_all (\<lambda>k. \<not> sublist k (toLowerCase ''Nowhereville, Atlantis'')) (map fst US_CITIES)
   \<and> nominatim_found ''Nowhereville, Atlantis''
       = Response 200
           (Inr [\<lparr>cand_lat = 10, cand_lon = 20, display_name = ''Nowhereville, Atlantis''\<rparr>,
                 \<lparr>cand_lat = 30, cand_lon = 40, display_name = ''Nowhereville, Lemuria''\<rparr>])
   \<and> geocodeLocation nominatim_found ''Nowhereville, Atlantis''
       = (Inr \<lparr>lat = 10, lon = 20, displayName = ''Nowhereville, Atlantis''\<rparr>,
          [''Nowhereville, Atlantis''])"
proof -
  have i: "(7 :: nat) < length US_CITIES" by (simp add: length_US_CITIES)
  have before: "\<forall>j<7. \<not> sublist (fst (US_CITIES ! j)) (toLowerCase ''San Jose or San Diego'')"
  proof (intro allI impI)
    fix j :: nat assume j: "j < 7"
    have "j < length (take 7 (map fst US_CITIES))" using j by (simp add: length_US_CITIES)
    then have "\<not> sublist (take 7 (map fst US_CITIES) ! j) (toLowerCase ''San Jose or San Diego'')"
      using sd_hit(2) unfolding list_all_length by blast
    then show "\<not> sublist (fst (US_CITIES ! j)) (toLowerCase ''San Jose or San Diego'')"
      using j by (simp add: length_US_CITIES)
  qed
  have hit: "geocodeLocation nominatim_500 ''San Jose or San Diego''
      = (Inr \<lparr>lat = uc_lat (snd (US_CITIES ! 7)), lon = uc_lon (snd (US_CITIES ! 7)),
               displayName = uc_name (snd (US_CITIES ! 7))\<rparr>, [])"
    using geocode_resolution[where i = 7 and location = "''San Jose or San Diego''"
        and nominatim = nominatim_500] i sd_hit(1) before
    by blast
  have hit': "geocodeLocation nominatim_500 ''San Jose or San Diego''
       = (Inr \<lparr>lat = 32.7157, lon = -117.1611, displayName = ''San Diego, CA''\<rparr>, [])"
    using hit by (simp add: sd_hit(4))
  let ?r = "\<lparr>cand_lat = 10, cand_lon = 20, display_name = ''Nowhereville, Atlantis''\<rparr>"
  let ?o = "[\<lparr>cand_lat = 30, cand_lon = 40, display_name = ''Nowhereville, Lemuria''\<rparr>]"
  have found: "nominatim_found ''Nowhereville, Atlantis'' = Response 200 (Inr (?r # ?o))"
    by (simp add: nominatim_examples)
  have miss: "snd (geocodeLocation nominatim_found ''Nowhereville, Atlantis'')
        = [''Nowhereville, Atlantis'']
      \<and> fst (geocodeLocation nominatim_found ''Nowhereville, Atlantis'')
        = Inr \<lparr>lat = cand_lat ?r, lon = cand_lon ?r, displayName = display_name ?r\<rparr>"
    using geocode_resolution[where location = "''Nowhereville, Atlantis''"
        and nominatim = nominatim_found and result = ?r and others = ?o] nowhere_miss' found
    by blast
  have miss': "geocodeLocation nominatim_found ''Nowhereville, Atlantis''
       = (Inr \<lparr>lat = 10, lon = 20, displayName = ''Nowhereville, Atlantis''\<rparr>,
          [''Nowhereville, Atlantis''])"
    using miss by (simp add: prod_eq_iff)
  show ?thesis
    using i sd_hit(1,2,3) hit' nowhere_miss found miss' by blast
qed

section \<open>Properties of the CSV output\<close>

lemma str_includes_char: "str_includes s [c] = (c \<in> set s)"
  by (induction s) auto

lemma escape_plain:
  "CHR '','' \<notin> set f \<Longrightarrow> CHR 0x22 \<notin> set f \<Longrightarrow> CHR 0x0A \<notin> set f \<Longrightarrow> escape f = f"
  by (simp add: escape_def str_includes_char)

lemma escape_quoted:
  "CHR '','' \<in> set f \<or> CHR 0x22 \<in> set f \<or> CHR 0x0A \<in> set f \<Longrightarrow>
     escape f = CHR 0x22 # double_quotes f @ [CHR 0x22]"
  by (auto simp add: escape_def str_includes_char)

text \<open>The reader always has a current record with a current field.\<close>


lemma csv_read_shape: "\<exists>g fs recs. csv_read q s = (g # fs) # recs"
proof (induction s arbitrary: q)
  case Nil
  then show ?case by simp
next
  case (Cons c s)
  obtain g1 fs1 r1 where 1: "csv_read Quoted s = (g1 # fs1) # r1" using Cons by blast
  obtain g2 fs2 r2 where 2: "csv_read QuoteSeen s = (g2 # fs2) # r2" using Cons by blast
  obtain g3 fs3 r3 where 3: "csv_read FieldStart s = (g3 # fs3) # r3" using Cons by blast
  obtain g4 fs4 r4 where 4: "csv_read Unquoted s = (g4 # fs4) # r4" using Cons by blast
  show ?case by (cases q) (simp_all add: 1 2 3 4 new_record_def)
qed

lemma add_char_chars: "add_char c (add_chars f r) = add_chars (c # f) r"
  by (induction f r rule: add_chars.induct) auto

lemma add_char_read: "add_char c (csv_read q s) = add_chars [c] (csv_read q s)"
  using csv_read_shape[of q s] by auto

lemma add_chars_append: "add_chars f (add_chars g r) = add_chars (f @ g) r"
  by (induction g r rule: add_chars.induct) auto

lemma read_quoted:
  "csv_read Quoted (double_quotes f @ CHR 0x22 # rest) = add_chars f (csv_read QuoteSeen rest)"
proof (induction f)
  case Nil
  show ?case using csv_read_shape[of QuoteSeen rest] by (auto simp: double_quotes_def)
next
  case (Cons c f)
  have dq: "double_quotes (c # f) = (if c = CHR 0x22 then [CHR 0x22, CHR 0x22] else [c]) @ double_quotes f"
    by (simp add: double_quotes_def)
  show ?case using Cons
    by (auto simp: dq add_char_chars)
qed

lemma read_unquoted:
  assumes "CHR '','' \<notin> set f" "CHR 0x0A \<notin> set f"
  shows "csv_read Unquoted (f @ rest) = add_chars f (csv_read Unquoted rest)"
  using assms
proof (induction f)
  case Nil
  show ?case using csv_read_shape[of Unquoted rest] by auto
next
  case (Cons c f)
  then show ?case by (auto simp: add_char_chars)
qed

text \<open>Before a separator or at the end the three states outside quotes agree.\<close>


lemma read_at_separator:
  "at_separator rest \<Longrightarrow> csv_read QuoteSeen rest = csv_read FieldStart rest"
  "at_separator rest \<Longrightarrow> csv_read Unquoted rest = csv_read FieldStart rest"
  by (cases rest; auto simp: at_separator_def)+

lemma read_field:
  assumes "at_separator rest"
  shows "csv_read FieldStart (escape f @ rest) = add_chars f (csv_read FieldStart rest)"
proof (cases "CHR '','' \<in> set f \<or> CHR 0x22 \<in> set f \<or> CHR 0x0A \<in> set f")
  case True
  then show ?thesis
    using read_quoted[of f rest] read_at_separator(1)[OF assms]
    by (simp add: escape_quoted)
next
  case False
  then have e: "escape f = f" by (simp add: escape_plain)
  show ?thesis
  proof (cases f)
    case Nil
    then show ?thesis using e csv_read_shape[of FieldStart rest] by auto
  next
    case (Cons c g)
    with False have "csv_read FieldStart (f @ rest) = add_char c (csv_read Unquoted (g @ rest))"
      by auto
    also have "\<dots> = add_char c (add_chars g (csv_read Unquoted rest))"
      using False Cons by (simp add: read_unquoted)
    also have "\<dots> = add_chars f (csv_read FieldStart rest)"
      using Cons read_at_separator(2)[OF assms] by (simp add: add_char_chars)
    finally show ?thesis by (simp add: e)
  qed
qed


text \<open>One record, then the whole text.\<close>

lemma at_separator_simps [simp]:
  "at_separator []" "at_separator (CHR '','' # r)" "at_separator (CHR 0x0A # r)"
  by (simp_all add: at_separator_def)

lemma join_Cons: "fs \<noteq> [] \<Longrightarrow> join sep (f # fs) = f @ sep @ join sep fs"
  by (cases fs) auto


lemma read_record:
  assumes "row \<noteq> []" "rest = [] \<or> hd rest = CHR 0x0A"
  shows "csv_read FieldStart (join '','' (map escape row) @ rest)
       = add_fields (butlast row) (add_chars (last row) (csv_read FieldStart rest))"
  using assms(1)
proof (induction row)
  case Nil
  then show ?case by simp
next
  case (Cons f row)
  have sep: "at_separator rest" using assms(2) by (auto simp: at_separator_def)
  show ?case
  proof (cases "row = []")
    case True
    obtain g fs recs where "add_chars f (csv_read FieldStart rest) = (g # fs) # recs"
      using csv_read_shape[of FieldStart rest] by auto
    then show ?thesis using True read_field[OF sep, of f] by simp
  next
    case False
    then have j: "join '','' (map escape (f # row)) @ rest
        = escape f @ (CHR '','' # join '','' (map escape row) @ rest)"
      by (cases row) auto
    obtain g fs recs where sh: "csv_read FieldStart (join '','' (map escape row) @ rest) = (g # fs) # recs"
      using csv_read_shape by blast
    have "csv_read FieldStart (join '','' (map escape (f # row)) @ rest)
        = add_chars f (new_field (csv_read FieldStart (join '','' (map escape row) @ rest)))"
      unfolding j by (subst read_field) simp_all
    also have "\<dots> = add_fields [f] (csv_read FieldStart (join '','' (map escape row) @ rest))"
      by (simp add: sh)
    also have "\<dots> = add_fields [f] (add_fields (butlast row) (add_chars (last row) (csv_read FieldStart rest)))"
      using Cons.IH[OF False] by simp
    also have "\<dots> = add_fields (butlast (f # row)) (add_chars (last (f # row)) (csv_read FieldStart rest))"
    proof -
      obtain g' fs' recs' where "add_chars (last row) (csv_read FieldStart rest) = (g' # fs') # recs'"
        using csv_read_shape[of FieldStart rest] by auto
      then show ?thesis using False by simp
    qed
    finally show ?thesis .
  qed
qed

lemma read_last_record:
  assumes "row \<noteq> []"
  shows "csv_read FieldStart (join '','' (map escape row)) = [row]"
  using read_record[OF assms, of "[]"] assms by (simp add: snoc_eq_iff_butlast)

lemma read_record_newline:
  assumes "row \<noteq> []"
  shows "csv_read FieldStart (join '','' (map escape row) @ CHR 0x0A # rest)
       = row # csv_read FieldStart rest"
  using read_record[OF assms, of "CHR 0x0A # rest"] assms
  by (simp add: new_record_def snoc_eq_iff_butlast)

lemma standard_csv_read_lines:
  assumes "rows \<noteq> []" "[] \<notin> set rows"
  shows "standard_csv_read (csv_lines rows) = rows"
  using assms
proof (induction rows)
  case Nil
  then show ?case by simp
next
  case (Cons row rows)
  show ?case
  proof (cases "rows = []")
    case True
    then show ?thesis using Cons.prems by (simp add: standard_csv_read_def csv_lines_def read_last_record)
  next
    case False
    then have "csv_lines (row # rows) = join '','' (map escape row) @ CHR 0x0A # csv_lines rows"
      by (cases rows) (auto simp: csv_lines_def)
    moreover have "row \<noteq> []" using Cons.prems by auto
    moreover have "standard_csv_read (csv_lines rows) = rows" using Cons False by simp
    ultimately show ?thesis by (simp add: standard_csv_read_def read_record_newline)
  qed
qed

lemma toCSV_roundtrip: "standard_csv_read (toCSV leads) = headers # map row_of leads"
  by (simp add: toCSV_def standard_csv_read_lines headers_def row_of_def image_iff)

lemma toCSV_cli_roundtrip: "standard_csv_read (toCSV_cli leads) = headers_cli # map row_of_cli leads"
  by (simp add: toCSV_cli_def standard_csv_read_lines headers_cli_def row_of_cli_def image_iff)

text \<open>
  C9. \<open>escape\<close> wraps a field in double quotes, doubling every double quote in it, exactly
  when the field holds a comma, a double quote or a newline, and returns it as it is
  otherwise. Reading the CSV text of any list of leads gives back the header record and, for
  every lead, the record of its fields as they were; in particular the sixth field of every
  data record is the lead's address. This holds for the endpoint's columns and for the
  command-line script's.
\<close>

theorem csv_escape_roundtrip:
  "escape f =
     (if CHR '','' \<in> set f \<or> CHR 0x22 \<in> set f \<or> CHR 0x0A \<in> set f
      then [CHR 0x22] @ concat (map (\<lambda>c. if c = CHR 0x22 then [CHR 0x22, CHR 0x22] else [c]) f)
           @ [CHR 0x22]
      else f)
   \<and> standard_csv_read (toCSV leads) = headers # map row_of leads
   \<and> standard_csv_read (toCSV_cli leads) = headers_cli # map row_of_cli leads
   \<and> map (\<lambda>r. r ! 5) (tl (standard_csv_read (toCSV leads))) = map address leads
   \<and> map (\<lambda>r. r ! 5) (tl (standard_csv_read (toCSV_cli leads))) = map address leads"
proof -
  have 1: "escape f =
     (if CHR '','' \<in> set f \<or> CHR 0x22 \<in> set f \<or> CHR 0x0A \<in> set f
      then [CHR 0x22] @ concat (map (\<lambda>c. if c = CHR 0x22 then [CHR 0x22, CHR 0x22] else [c]) f)
           @ [CHR 0x22]
      else f)"
    by (simp add: escape_def str_includes_char double_quotes_def)
  have 4: "map (\<lambda>r. r ! 5) (tl (standard_csv_read (toCSV leads))) = map address leads"
    by (simp add: toCSV_roundtrip row_of_def comp_def)
  have 5: "map (\<lambda>r. r ! 5) (tl (standard_csv_read (toCSV_cli leads))) = map address leads"
    by (simp add: toCSV_cli_roundtrip row_of_cli_def comp_def)
  show ?thesis using 1 toCSV_roundtrip toCSV_cli_roundtrip 4 5 by blast
qed

lemma tricky_address_sel: "address tricky_lead = tricky_address"
  by (simp add: tricky_lead_def)

theorem csv_escape_roundtrip_witness:
  "escape tricky_address
     = [CHR 0x22] @ ''12 '' @ [CHR 0x22, CHR 0x22] @ ''B'' @ [CHR 0x22, CHR 0x22]
       @ '' St, Suite 4'' @ [CHR 0x0A] @ ''Austin'' @ [CHR 0x22]
   \<and> map (\<lambda>r. r ! 5) (tl (standard_csv_read (toCSV [tricky_lead]))) = [tricky_address]
   \<and> map (\<lambda>r. r ! 5) (tl (standard_csv_read (toCSV_cli [tricky_lead]))) = [tricky_address]"
proof -
  note t = csv_escape_roundtrip[of tricky_address "[tricky_lead]"]
  have "escape tricky_address
     = [CHR 0x22] @ ''12 '' @ [CHR 0x22, CHR 0x22] @ ''B'' @ [CHR 0x22, CHR 0x22]
       @ '' St, Suite 4'' @ [CHR 0x0A] @ ''Austin'' @ [CHR 0x22]"
    using t by (simp add: tricky_address_def)
  moreover have "map (\<lambda>r. r ! 5) (tl (standard_csv_read (toCSV [tricky_lead]))) = map address [tricky_lead]"
    using t by blast
  moreover have "map (\<lambda>r. r ! 5) (tl (standard_csv_read (toCSV_cli [tricky_lead])))
      = map address [tricky_lead]"
    using t by blast
  moreover have "map address [tricky_lead] = [tricky_address]"
    by (simp add: tricky_address_sel)
  ultimately show ?thesis by simp
qed

section \<open>Properties of the read endpoints\<close>




section \<open>Invariants of the lead store\<close>

lemma current_city_in_table: "fst (current rs) \<in> set CITIES"
  by (simp add: current_def current_of_def length_CITIES)

lemma dedup_first_subset: "set (dedup_first bs) \<subseteq> set bs"
  by (induction bs rule: dedup_first.induct) auto

lemma dedup_first_distinct: "distinct (map (\<lambda>b. toLowerCase (name b)) (dedup_first bs))"
proof (induction bs rule: dedup_first.induct)
  case 1
  then show ?case by simp
next
  case (2 b bs)
  have "toLowerCase (name b) \<notin> (\<lambda>b. toLowerCase (name b)) `
      set (dedup_first (filter (\<lambda>b'. toLowerCase (name b') \<noteq> toLowerCase (name b)) bs))"
    using dedup_first_subset[of "filter (\<lambda>b'. toLowerCase (name b') \<noteq> toLowerCase (name b)) bs"]
    by auto
  then show ?case using 2 by simp
qed

lemma filter_and_deduplicate_names:
  "distinct (map (\<lambda>b. toLowerCase (name b)) (filter_and_deduplicate limit bs))"
  "set (filter_and_deduplicate limit bs) \<subseteq> set bs"
proof -
  show "distinct (map (\<lambda>b. toLowerCase (name b)) (filter_and_deduplicate limit bs))"
    by (simp add: filter_and_deduplicate_def filter_seen_eq take_map[symmetric]
        distinct_take dedup_first_distinct)
  have "set (filter_and_deduplicate limit bs) \<subseteq> set (filter_seen {} bs)"
    by (auto simp: filter_and_deduplicate_def dest: in_set_takeD)
  also have "\<dots> \<subseteq> set bs"
    using dedup_first_subset by (fastforce simp: filter_seen_eq)
  finally show "set (filter_and_deduplicate limit bs) \<subseteq> set bs" .
qed

lemma search_results:
  assumes "searchOpenStreetMap w cat c limit = Inr bs"
  shows "\<forall>b \<in> set bs. scrapedCity b = city_name c"
    and "distinct (map (\<lambda>b. toLowerCase (name b)) bs)"
proof -
  obtain els where bs: "bs = [] \<or> bs = filter_and_deduplicate limit (map (to_business (now w) cat c) els)"
    using assms
    by (auto simp: searchOpenStreetMap_def split: http.splits sum.splits if_splits)
  show "\<forall>b \<in> set bs. scrapedCity b = city_name c"
    using bs filter_and_deduplicate_names(2)[of limit "map (to_business (now w) cat c) els"]
    by (auto simp: to_business_def)
  show "distinct (map (\<lambda>b. toLowerCase (name b)) bs)"
    using bs filter_and_deduplicate_names(1) by auto
qed

lemma with_tracking_sel:
  "name (with_tracking b g f) = name b" "scrapedCity (with_tracking b g f) = scrapedCity b"
  by (simp_all add: with_tracking_def business.defs lead.defs)

lemma qualifiedLeads_eq:
  "qualifiedLeads w bs =
     map (\<lambda>b. with_tracking b
                (trk_hasGA (checkWebsiteForTracking (fetch w) (website b)))
                (trk_hasFB (checkWebsiteForTracking (fetch w) (website b))))
       (filter (\<lambda>b. trk_hasGA (checkWebsiteForTracking (fetch w) (website b))
                   \<or> trk_hasFB (checkWebsiteForTracking (fetch w) (website b))) bs)"
  by (induction bs) (simp_all add: Let_def)

lemma qualifiedLeads_flags:
  "\<forall>l \<in> set (qualifiedLeads w bs). hasGA l \<or> hasFB l"
  by (auto simp: qualifiedLeads_eq with_tracking_def business.defs lead.defs)

lemma qualifiedLeads_cities:
  assumes "\<forall>b \<in> set bs. scrapedCity b = c"
  shows "\<forall>l \<in> set (qualifiedLeads w bs). scrapedCity l = c"
  using assms by (auto simp: qualifiedLeads_eq with_tracking_sel)

lemma qualifiedLeads_distinct_keys:
  assumes "\<forall>b \<in> set bs. scrapedCity b = c"
    and "distinct (map (\<lambda>b. toLowerCase (name b)) bs)"
  shows "distinct (map lead_key (qualifiedLeads w bs))"
proof -
  let ?q = "\<lambda>b. trk_hasGA (checkWebsiteForTracking (fetch w) (website b))
                \<or> trk_hasFB (checkWebsiteForTracking (fetch w) (website b))"
  have k: "map lead_key (qualifiedLeads w bs)
      = map (\<lambda>n. n @ ''-'' @ toLowerCase c) (map (\<lambda>b. toLowerCase (name b)) (filter ?q bs))"
    using assms(1) by (simp add: qualifiedLeads_eq lead_key_def with_tracking_sel comp_def)
  have "distinct (map (\<lambda>b. toLowerCase (name b)) (filter ?q bs))"
    using assms(2) by (rule distinct_map_filter)
  moreover have "inj (\<lambda>n. n @ ''-'' @ toLowerCase c)"
    by (rule injI) simp
  then have "inj_on (\<lambda>n. n @ ''-'' @ toLowerCase c)
      (set (map (\<lambda>b. toLowerCase (name b)) (filter ?q bs)))"
    by (rule inj_on_subset) simp
  ultimately show ?thesis
    unfolding k by (simp only: distinct_map simp_thms)
qed

lemma handler_leads:
  "all_leads (fst (handler w st)) = all_leads st
   \<or> (\<exists>bs rs. searchOpenStreetMap w (snd (current rs)) (fst (current rs)) 30 = Inr bs
        \<and> all_leads (fst (handler w st))
            = Some (ingest (read_slot (get_fails w AllLeads) (all_leads st) [])
                      (qualifiedLeads w bs)))"
  by (auto simp: handler_def try_block_def Let_def split: sum.splits option.splits)

text \<open>
  Two invariants of the lead store under the handler, whatever the world does: every stored
  lead carries a city of the table as its \<open>scrapedCity\<close>, and no two stored leads have
  the same key.
\<close>

lemma handler_keeps_table_cities:
  assumes "\<forall>l \<in> set (read_slot False (all_leads st) []).
             scrapedCity l \<in> set (map city_name CITIES)"
  shows "\<forall>l \<in> set (read_slot False (all_leads (fst (handler w st))) []).
             scrapedCity l \<in> set (map city_name CITIES)"
proof -
  consider "all_leads (fst (handler w st)) = all_leads st"
    | bs rs where "searchOpenStreetMap w (snd (current rs)) (fst (current rs)) 30 = Inr bs"
        and "all_leads (fst (handler w st))
            = Some (ingest (read_slot (get_fails w AllLeads) (all_leads st) [])
                      (qualifiedLeads w bs))"
    using handler_leads[of w st] by blast
  then show ?thesis
  proof cases
    case 1
    then show ?thesis using assms by simp
  next
    case 2
    have c: "\<forall>l \<in> set (qualifiedLeads w bs). scrapedCity l = city_name (fst (current rs))"
      using search_results(1)[OF 2(1)] by (rule qualifiedLeads_cities)
    have e: "set (read_slot (get_fails w AllLeads) (all_leads st) [])
        \<subseteq> set (read_slot False (all_leads st) [])"
      by (simp add: read_slot_def)
    have "city_name (fst (current rs)) \<in> set (map city_name CITIES)"
      using current_city_in_table[of rs] by simp
    then show ?thesis
      using 2(2) c e assms
      by (auto simp: read_slot_def ingest_def newLeads_eq)
  qed
qed

lemma handler_keeps_keys_distinct:
  assumes "distinct (map lead_key (read_slot False (all_leads st) []))"
  shows "distinct (map lead_key (read_slot False (all_leads (fst (handler w st))) []))"
proof -
  consider "all_leads (fst (handler w st)) = all_leads st"
    | bs rs where "searchOpenStreetMap w (snd (current rs)) (fst (current rs)) 30 = Inr bs"
        and "all_leads (fst (handler w st))
            = Some (ingest (read_slot (get_fails w AllLeads) (all_leads st) [])
                      (qualifiedLeads w bs))"
    using handler_leads[of w st] by blast
  then show ?thesis
  proof cases
    case 1
    then show ?thesis using assms by simp
  next
    case 2
    have q: "distinct (map lead_key (qualifiedLeads w bs))"
      using search_results[OF 2(1)] by (rule qualifiedLeads_distinct_keys)
    have e: "distinct (map lead_key (read_slot (get_fails w AllLeads) (all_leads st) []))"
      using assms by (simp add: read_slot_def)
    show ?thesis
      using 2(2) distinct_ingest[OF e q] by (simp add: read_slot_def)
  qed
qed

lemma invocations_keep_invariants:
  assumes "\<forall>l \<in> set (read_slot False (all_leads st) []).
             scrapedCity l \<in> set (map city_name CITIES)"
    and "distinct (map lead_key (read_slot False (all_leads st) []))"
  shows "(\<forall>l \<in> set (read_slot False (all_leads (invocations ws st)) []).
             scrapedCity l \<in> set (map city_name CITIES))
       \<and> distinct (map lead_key (read_slot False (all_leads (invocations ws st)) []))"
  using assms
proof (induction ws arbitrary: st)
  case Nil
  then show ?case by simp
next
  case (Cons w ws)
  show ?case
    using Cons.IH[OF handler_keeps_table_cities[OF Cons.prems(1), of w]
                     handler_keeps_keys_distinct[OF Cons.prems(2), of w]]
    by simp
qed

end
